theory Spec2Isabelle
  imports Complex_Main
begin

section \<open>Values, vectors and the data model\<close>

text \<open>
  JavaScript numbers are modelled as real numbers, with NaN written as \<open>None\<close> where a
  conversion can produce it and \<open>Infinity\<close> where a field is initialised to it (see
  \<open>dur\<close>).  The code's arithmetic is binary64; the model's is exact.  The two agree
  wherever no operation rounds, which is the case for the numbers of every concrete
  evaluation below (integers and multiples of a power of two), and the general theorems
  use only the order of the operations and the clamps \<open>Math.max\<close> and \<open>Math.min\<close>, never
  the exactness of a sum or product.  The status table of a
  fighter is a JavaScript object used as a dictionary, and keys can be added at run time,
  so it is a partial map from key strings to values; a missing key reads as
  \<open>undefined\<close>.  Its entries are numbers and one boolean (\<open>nextAttackVenom\<close>).  The two
  entries that hold \<open>null\<close> or an object reference, \<open>dashTarget\<close> and \<open>implosionTarget\<close>,
  are kept as typed fields of the fighter instead.  Lookups only see an object's own keys.
\<close>

datatype jsval =
    JNum real
  | JBool bool

type_synonym statusTable = "string \<rightharpoonup> jsval"

text \<open>\<open>ToNumber\<close> as used by the relational operators; \<open>None\<close> stands for NaN.\<close>

fun toNumber :: "jsval option \<Rightarrow> real option" where
  "toNumber None = None"
| "toNumber (Some (JNum x)) = Some x"
| "toNumber (Some (JBool b)) = Some (if b then 1 else 0)"

text \<open>A comparison of a table entry with a number: false on NaN.\<close>

definition numIs :: "(real \<Rightarrow> bool) \<Rightarrow> jsval option \<Rightarrow> bool" where
  "numIs P v = (case toNumber v of None \<Rightarrow> False | Some x \<Rightarrow> P x)"

text \<open>\<open>v > 0\<close> and \<open>v <= 0\<close>.\<close>

definition gt0 :: "jsval option \<Rightarrow> bool" where
  "gt0 v = numIs (\<lambda>x. 0 < x) v"

definition le0 :: "jsval option \<Rightarrow> bool" where
  "le0 v = numIs (\<lambda>x. x \<le> 0) v"

text \<open>Truthiness of a table entry (\<open>undefined\<close>, \<open>false\<close> and \<open>0\<close> are falsy).\<close>

fun truthy :: "jsval option \<Rightarrow> bool" where
  "truthy None = False"
| "truthy (Some (JNum x)) = (x \<noteq> 0)"
| "truthy (Some (JBool b)) = b"

text \<open>The number \<open>(v || 0)\<close> contributes to a sum.\<close>

fun orZero :: "jsval option \<Rightarrow> real" where
  "orZero None = 0"
| "orZero (Some (JNum x)) = x"
| "orZero (Some (JBool b)) = (if b then 1 else 0)"

record vec3 =
  vx :: real
  vy :: real
  vz :: real

definition vzero :: vec3 where
  "vzero = \<lparr>vx = 0, vy = 0, vz = 0\<rparr>"

definition vadd :: "vec3 \<Rightarrow> vec3 \<Rightarrow> vec3" where
  "vadd a b = \<lparr>vx = vx a + vx b, vy = vy a + vy b, vz = vz a + vz b\<rparr>"

definition vsub :: "vec3 \<Rightarrow> vec3 \<Rightarrow> vec3" where
  "vsub a b = \<lparr>vx = vx a - vx b, vy = vy a - vy b, vz = vz a - vz b\<rparr>"

definition vscale :: "real \<Rightarrow> vec3 \<Rightarrow> vec3" where
  "vscale s a = \<lparr>vx = s * vx a, vy = s * vy a, vz = s * vz a\<rparr>"

definition vlengthSq :: "vec3 \<Rightarrow> real" where
  "vlengthSq a = vx a * vx a + vy a * vy a + vz a * vz a"

definition vlength :: "vec3 \<Rightarrow> real" where
  "vlength a = sqrt (vlengthSq a)"

text \<open>three.js \<open>normalize\<close> divides by \<open>length() || 1\<close>.\<close>

definition vnormalize :: "vec3 \<Rightarrow> vec3" where
  "vnormalize a = vscale (1 / (if vlength a = 0 then 1 else vlength a)) a"

definition distanceTo :: "vec3 \<Rightarrow> vec3 \<Rightarrow> real" where
  "distanceTo a b = vlength (vsub a b)"

text \<open>
  \<open>applyAxisAngle\<close> about the up vector \<open>(0, 1, 0)\<close> by \<open>Math.PI / 2\<close>, with the sine and
  cosine taken exactly.
\<close>

definition rotateQuarterY :: "vec3 \<Rightarrow> vec3" where
  "rotateQuarterY a = \<lparr>vx = vz a, vy = vy a, vz = - vx a\<rparr>"

record skill =
  sname :: string
  cost :: real
  cd :: real
  tags :: "string list"

record aiConfig =
  decisionInterval :: real
  energyManagement :: real
  engagementRange :: real
  retreatHealth :: real
  aimLag :: real
  aimError :: real
  aimPrediction :: real
  dodgeChance :: real
  dodgeReaction :: real
  comboExecution :: real
  counterSkill :: real

text \<open>
  The constructor creates \<open>aiState\<close> with three fields; \<open>repositionTarget\<close> is read and
  written by the tactical layer and is \<open>None\<close> while the property is undefined.
\<close>

record aiState =
  decisionTimer :: real
  strategy :: string
  dodgeCooldown :: real
  repositionTarget :: "vec3 option"

record player =
  playerNum :: nat
  characterKey :: string
  maxHp :: real
  hp :: real
  maxEnergy :: real
  energy :: real
  speed :: real
  skills :: "string \<rightharpoonup> skill"
  passiveName :: string
  attackType :: string
  attackRange :: real
  status :: statusTable
  dashTarget :: "nat option"
  implosionTarget :: "nat option"
  cooldowns :: "string \<rightharpoonup> real"
  velocity :: vec3
  aimDirection :: vec3
  position :: vec3
  rewindPositions :: "(vec3 \<times> real \<times> real) list"
  rewindTimer :: real
  isDead :: bool
  damageFlashTimer :: real
  originalEmissives :: bool
  meshVisible :: bool
  resonanceStacks :: nat
  fortressTimer :: real
  staticChargeStacks :: nat
  firewallTimer :: real
  illusionTimer :: real
  lastSkillTime :: real
  attackSpeedStacks :: real
  attackSpeedTimer :: real
  isAI :: bool
  aiCfg :: "aiConfig option"
  aiSt :: "aiState option"
  aura :: "nat option"

datatype dur = Fin real | Infinity

fun durLe0 :: "dur \<Rightarrow> bool" where
  "durLe0 (Fin x) = (x \<le> 0)"
| "durLe0 Infinity = False"

fun durSub :: "dur \<Rightarrow> real \<Rightarrow> dur" where
  "durSub (Fin x) d = Fin (x - d)"
| "durSub Infinity d = Infinity"

datatype ownerRef = NoOwner | OwnerPlayer nat | OwnerObject nat

text \<open>
  A transient effect object: the fields of the \<open>SpecialObject\<close> base class, its class
  name (\<open>constructor.name\<close>) and an identity, with the damage timer of the zone classes
  and the hit points of the turret and soldier classes.
\<close>

record gobj =
  oid :: nat
  className :: string
  owner :: ownerRef
  duration :: dur
  hasMesh :: bool
  hasCollider :: bool
  blocksProjectiles :: bool
  isDestroyed :: bool
  damageTimer :: real
  ohp :: real

text \<open>
  A projectile.  \<open>pownerOwner\<close> is \<open>this.owner.owner\<close> (the fighter behind a turret), which
  never changes after construction.  \<open>effects\<close> is the on-hit object literal in key order,
  \<open>None\<close> for \<open>null\<close>.  \<open>onDestroy\<close> is set for Crushing Singularity only.
\<close>

record projectile =
  pid :: nat
  powner :: ownerRef
  pownerOwner :: ownerRef
  pduration :: real
  pdamage :: real
  pspeed :: real
  pposition :: vec3
  pdirection :: vec3
  effects :: "(string \<times> jsval) list option"
  piercing :: bool
  hitPlayers :: "nat list"
  gracePeriod :: real
  onDestroy :: bool
  pDestroyed :: bool

text \<open>
  The simulation context: the module-level lists of \<open>main.js\<close> (shared with \<open>player.js\<close>
  and \<open>game-objects.js\<close> by \<open>setPlayerDependencies\<close>), the game-state string of
  \<open>state.js\<close>, and logs of the fire-and-forget calls to external collaborators
  (\<open>skillEvents\<close> lists the calls of \<open>window.pushSkillEvent\<close>).  \<open>winner\<close> records the
  argument of the first effective \<open>endGame\<close> call (0 is a draw).  \<open>timers\<close> holds the
  pending \<open>setTimeout\<close> callbacks of the reflex layer: the delay in milliseconds and the
  two values the closure captures, the AI fighter and the escape direction.
\<close>

record world =
  players :: "player list"
  projectiles :: "projectile list"
  specialObjects :: "gobj list"
  nextId :: nat
  gameStateName :: string
  gameEnded :: bool
  winner :: "nat option"
  riftMode :: bool
  isOnline :: bool
  audioReady :: bool
  soundLog :: "string list"
  skillEvents :: "string list"
  timers :: "(real \<times> nat \<times> vec3) list"

definition updPlayer :: "nat \<Rightarrow> (player \<Rightarrow> player) \<Rightarrow> world \<Rightarrow> world" where
  "updPlayer i f w = w\<lparr>players := (players w)[i := f (players w ! i)]\<rparr>"

definition setStatus :: "string \<Rightarrow> jsval \<Rightarrow> player \<Rightarrow> player" where
  "setStatus k v p = p\<lparr>status := (status p)(k \<mapsto> v)\<rparr>"

text \<open>\<open>players.find(p => p !== this)\<close>: the first fighter that is not \<open>this\<close>.\<close>

definition findOpponent :: "nat \<Rightarrow> world \<Rightarrow> nat option" where
  "findOpponent i w = List.find (\<lambda>j. j \<noteq> i) [0..<length (players w)]"

text \<open>\<open>specialObjects.push(new C(owner, duration))\<close> for a class with the base constructor.\<close>

definition pushSpecial :: "string \<Rightarrow> ownerRef \<Rightarrow> dur \<Rightarrow> world \<Rightarrow> world" where
  "pushSpecial cls own d w =
     w\<lparr>specialObjects := specialObjects w @
          [\<lparr>oid = nextId w, className = cls, owner = own, duration = d,
            hasMesh = True, hasCollider = False, blocksProjectiles = False,
            isDestroyed = False, damageTimer = 0, ohp = 0\<rparr>],
       nextId := nextId w + 1\<rparr>"

definition playSound :: "string \<Rightarrow> world \<Rightarrow> world" where
  "playSound cue w = (if audioReady w then w\<lparr>soundLog := soundLog w @ [cue]\<rparr> else w)"

section \<open>Static data and the constructor\<close>

text \<open>Entries of \<open>CHARACTERS\<close> (constants.js) and of \<open>AI_TIERS\<close> (ai.js).\<close>

record character =
  chp :: real
  cspeed :: real
  cattackType :: string
  cpassive :: string
  cskills :: "(string \<times> skill) list"

definition mkSkill :: "string \<Rightarrow> real \<Rightarrow> real \<Rightarrow> string list \<Rightarrow> skill" where
  "mkSkill n c d ts = \<lparr>sname = n, cost = c, cd = d, tags = ts\<rparr>"

definition ECHO_PRIME :: character where
  "ECHO_PRIME = \<lparr>chp = 100, cspeed = 8, cattackType = ''RANGED'', cpassive = ''Resonance'',
     cskills =
       [(''s1'', mkSkill ''Power Shot'' 25 4 [''damage'', ''projectile'', ''combo'']),
        (''s2'', mkSkill ''Phase Shift'' 30 5 [''mobility'', ''escape'']),
        (''s3'', mkSkill ''Static Field'' 50 12 [''damage'', ''aoe'', ''zone'']),
        (''s4'', mkSkill ''Overcharge'' 80 40 [''buff'', ''damage'', ''utility'', ''ultimate''])]\<rparr>"

definition AEGIS :: character where
  "AEGIS = \<lparr>chp = 140, cspeed = 6, cattackType = ''MELEE'', cpassive = ''Fortress'',
     cskills =
       [(''s1'', mkSkill ''Aegis Charge'' 20 5 [''damage'', ''mobility'', ''engage'', ''cc'']),
        (''s2'', mkSkill ''Energy Shield'' 40 8 [''defensive'', ''shield'']),
        (''s3'', mkSkill ''Overload'' 60 12 [''damage'', ''aoe'', ''combo'']),
        (''s4'', mkSkill ''Righteous Stand'' 70 35 [''defensive'', ''shield'', ''cc'', ''ultimate''])]\<rparr>"

definition GLITCH :: character where
  "GLITCH = \<lparr>chp = 100, cspeed = 8, cattackType = ''RANGED'', cpassive = ''Firewall'',
     cskills =
       [(''s1'', mkSkill ''Corruption'' 30 8 [''debuff'', ''dot'', ''projectile'']),
        (''s2'', mkSkill ''Rewind'' 40 10 [''defensive'', ''heal'', ''escape'', ''utility'']),
        (''s3'', mkSkill ''Swap'' 60 20 [''utility'', ''mobility'', ''engage'']),
        (''s4'', mkSkill ''System Crash'' 75 40
                  [''damage'', ''debuff'', ''aoe'', ''interrupt'', ''ultimate''])]\<rparr>"

definition COLOSSUS :: character where
  "COLOSSUS = \<lparr>chp = 150, cspeed = 6.5, cattackType = ''MELEE'', cpassive = ''Juggernaut'',
     cskills =
       [(''s1'', mkSkill ''Decimate'' 20 3 [''damage'', ''aoe'']),
        (''s2'', mkSkill ''Tectonic Slam'' 30 7 [''damage'', ''aoe'', ''cc'']),
        (''s3'', mkSkill ''Unstoppable Force'' 60 16 [''buff'', ''engage'', ''utility'']),
        (''s4'', mkSkill ''Pulverize'' 100 50
                  [''damage'', ''aoe'', ''cc'', ''combo'', ''engage'', ''ultimate''])]\<rparr>"

definition VORTEX :: character where
  "VORTEX = \<lparr>chp = 120, cspeed = 8.5, cattackType = ''RANGED'', cpassive = ''Event Horizon'',
     cskills =
       [(''s1'', mkSkill ''Crushing Singularity'' 25 7 [''damage'', ''projectile'', ''cc'', ''zone'']),
        (''s2'', mkSkill ''Graviton Pulse'' 30 8 [''damage'', ''aoe'', ''cc'']),
        (''s3'', mkSkill ''Implosion'' 45 12 [''damage'', ''debuff'', ''combo'']),
        (''s4'', mkSkill ''Black Hole'' 70 40 [''cc'', ''aoe'', ''zone'', ''combo'', ''ultimate''])]\<rparr>"

definition tierNoob :: aiConfig where
  "tierNoob = \<lparr>decisionInterval = 2.0, energyManagement = 0, engagementRange = 10,
     retreatHealth = 0.05, aimLag = 0.8, aimError = 10, aimPrediction = 0.0,
     dodgeChance = 0.1, dodgeReaction = 0.75, comboExecution = 0.0, counterSkill = 0.0\<rparr>"

definition tierPro :: aiConfig where
  "tierPro = \<lparr>decisionInterval = 0.5, energyManagement = 25, engagementRange = 20,
     retreatHealth = 0.25, aimLag = 0.15, aimError = 2, aimPrediction = 0.3,
     dodgeChance = 0.6, dodgeReaction = 0.2, comboExecution = 0.25, counterSkill = 0.1\<rparr>"

definition tierDevil :: aiConfig where
  "tierDevil = \<lparr>decisionInterval = 0.0, energyManagement = 75, engagementRange = 30,
     retreatHealth = 0.5, aimLag = 0.0, aimError = 0.0, aimPrediction = 1.0,
     dodgeChance = 1.0, dodgeReaction = 0.0, comboExecution = 1.0, counterSkill = 1.0\<rparr>"

text \<open>The status table and the cooldown map as the \<open>Player\<close> constructor creates them.\<close>

definition initStatus :: statusTable where
  "initStatus = map_of
     [(''slowed'', JNum 0), (''rooted'', JNum 0), (''silenced'', JNum 0),
      (''shielded'', JNum 0), (''spellShield'', JNum 0), (''unstoppable'', JNum 0),
      (''cloaked'', JNum 0), (''empowered'', JNum 0), (''venom'', JNum 0),
      (''corruption'', JNum 0), (''feedbackLoop'', JNum 0), (''isCharging'', JNum 0),
      (''riftBuff'', JNum 0), (''nextAttackVenom'', JBool False),
      (''targetingArray'', JNum 0), (''parry'', JNum 0), (''siege'', JNum 0),
      (''gravityMarks'', JNum 0), (''gravityMarkTimer'', JNum 0),
      (''implosionTimer'', JNum 0)]"

definition initCooldowns :: "string \<rightharpoonup> real" where
  "initCooldowns = map_of
     [(''basicAttack'', 0), (''s1'', 0), (''s2'', 0), (''s3'', 0), (''s4'', 0)]"

text \<open>
  \<open>new Player(playerNum, characterKey, aiTier)\<close>, given the character's entry and the
  tier's entry (\<open>None\<close> for a human fighter) and the identity of the aura object.  Note
  that \<open>this.hp = this.maxHp\<close> follows the Juggernaut test unconditionally.
\<close>

definition newPlayer :: "nat \<Rightarrow> string \<Rightarrow> character \<Rightarrow> aiConfig option \<Rightarrow> nat option \<Rightarrow> player" where
  "newPlayer n key d tier a =
     (let mh = (if cpassive d = ''Juggernaut'' then chp d * 1.1 else chp d) in
      \<lparr>playerNum = n, characterKey = key, maxHp = mh, hp = mh,
       maxEnergy = 100, energy = 100,
       speed = (if cpassive d = ''Swiftness'' then cspeed d * 1.05 else cspeed d),
       skills = map_of (cskills d), passiveName = cpassive d,
       attackType = cattackType d,
       attackRange = (if cattackType d = ''MELEE'' then 4.0 else 0),
       status = initStatus, dashTarget = None, implosionTarget = None,
       cooldowns = initCooldowns,
       velocity = vzero, aimDirection = vzero,
       position = \<lparr>vx = (if n = 1 then -15 else 15), vy = 0, vz = 0\<rparr>,
       rewindPositions = [], rewindTimer = 0, isDead = False,
       damageFlashTimer = 0, originalEmissives = False, meshVisible = True,
       resonanceStacks = 0, fortressTimer = 0, staticChargeStacks = 0,
       firewallTimer = 20, illusionTimer = 45, lastSkillTime = -1,
       attackSpeedStacks = 0, attackSpeedTimer = 0,
       isAI = (tier \<noteq> None), aiCfg = tier,
       aiSt = (case tier of
                 None \<Rightarrow> None
               | Some c \<Rightarrow> Some \<lparr>decisionTimer = 0, strategy = ''IDLE'',
                                  dodgeCooldown = 0, repositionTarget = None\<rparr>),
       aura = a\<rparr>)"

section \<open>Transient effects: the base contract\<close>

text \<open>\<open>SpecialObject.update\<close> and \<open>SpecialObject.destroy\<close> (game-objects.js).\<close>

definition baseUpdate :: "real \<Rightarrow> gobj \<Rightarrow> gobj" where
  "baseUpdate delta ob =
     (if isDestroyed ob then ob else ob\<lparr>duration := durSub (duration ob) delta\<rparr>)"

definition baseDestroy :: "gobj \<Rightarrow> gobj" where
  "baseDestroy ob =
     (if isDestroyed ob then ob else ob\<lparr>isDestroyed := True, hasMesh := False\<rparr>)"

section \<open>Death and damage (player.js)\<close>

text \<open>Statements run in sequence: each step takes the state the previous one left.\<close>

definition steps :: "('s \<Rightarrow> 's) list \<Rightarrow> 's \<Rightarrow> 's" where
  "steps fs s = fold (\<lambda>f. f) fs s"

text \<open>
  \<open>Player.die\<close>.  The guard also returns while the game state is \<open>GAME_OVER\<close>.  The aura
  is destroyed and spliced out of the live list at once; rendering-only attachments
  (status rings, rift light) are not modelled.  Nothing here touches the game state or
  the winner.
\<close>

definition spliceAura :: "nat \<Rightarrow> world \<Rightarrow> world" where
  "spliceAura a w =
     w\<lparr>specialObjects := filter (\<lambda>ob. oid ob \<noteq> a) (specialObjects w)\<rparr>"

definition removeAura :: "nat \<Rightarrow> world \<Rightarrow> world" where
  "removeAura i w =
     (case aura (players w ! i) of
        None \<Rightarrow> w
      | Some a \<Rightarrow> updPlayer i (\<lambda>q. q\<lparr>aura := None\<rparr>) (spliceAura a w))"

definition die :: "nat \<Rightarrow> world \<Rightarrow> world" where
  "die i w =
     (if isDead (players w ! i) \<or> gameStateName w = ''GAME_OVER'' then w
      else steps [updPlayer i (\<lambda>q. q\<lparr>isDead := True, hp := 0, damageFlashTimer := 0,
                                      originalEmissives := False, meshVisible := False\<rparr>),
                  pushSpecial ''ParticleSystem'' NoOwner (Fin 1.5),
                  playSound ''death'',
                  removeAura i] w)"

text \<open>The visible part of a non-DoT hit: floating number, hit particles, sound, flash.\<close>

definition flash :: "player \<Rightarrow> player" where
  "flash q =
     q\<lparr>originalEmissives := (if damageFlashTimer q \<le> 0 then True else originalEmissives q),
       damageFlashTimer := 0.15\<rparr>"

definition hitEffects :: "nat \<Rightarrow> world \<Rightarrow> world" where
  "hitEffects i w =
     steps [pushSpecial ''FloatingDamageText'' NoOwner (Fin 1),
            pushSpecial ''ParticleSystem'' NoOwner (Fin 0.6),
            playSound ''hit'',
            updPlayer i flash] w"

text \<open>A parry roots \<open>players.find(p => p !== this)\<close>, when there is one, for 1.5 seconds.\<close>

definition rootAttacker :: "nat \<Rightarrow> world \<Rightarrow> world" where
  "rootAttacker i w =
     (case findOpponent i w of
        None \<Rightarrow> w
      | Some j \<Rightarrow> updPlayer j (setStatus ''rooted'' (JNum 1.5)) w)"

text \<open>
  The damage that proceeds: \<open>dmg\<close> is multiplied by 1.3 under corruption, then by 0.7 under
  empowerment, and taken from health, floored at zero.
\<close>

definition scaledDamage :: "real \<Rightarrow> player \<Rightarrow> real" where
  "scaledDamage amount q =
     (if gt0 (status q ''empowered'')
      then (if gt0 (status q ''corruption'') then amount * 1.3 else amount) * 0.7
      else (if gt0 (status q ''corruption'') then amount * 1.3 else amount))"

definition loseHealth :: "real \<Rightarrow> player \<Rightarrow> player" where
  "loseHealth amount q = q\<lparr>hp := max 0 (hp q - scaledDamage amount q)\<rparr>"

definition dieIfDown :: "nat \<Rightarrow> world \<Rightarrow> world" where
  "dieIfDown i w = (if hp (players w ! i) \<le> 0 then die i w else w)"

text \<open>\<open>Player.takeDamage(amount, isDoT)\<close> on fighter \<open>i\<close>.\<close>

definition takeDamage :: "nat \<Rightarrow> real \<Rightarrow> bool \<Rightarrow> world \<Rightarrow> world" where
  "takeDamage i amount isDoT w =
     (if isDead (players w ! i) then w
      else if gt0 (status (players w ! i) ''shielded'') \<and> \<not> isDoT then w
      else if passiveName (players w ! i) = ''Firewall'' \<and> firewallTimer (players w ! i) \<le> 0
              \<and> \<not> isDoT then
        pushSpecial ''ShieldEffect'' (OwnerPlayer i) (Fin 1)
          (updPlayer i (\<lambda>q. q\<lparr>firewallTimer := 20\<rparr>) w)
      else if gt0 (status (players w ! i) ''spellShield'') \<and> \<not> isDoT then
        updPlayer i (setStatus ''spellShield'' (JNum 0)) w
      else if gt0 (status (players w ! i) ''parry'') \<and> \<not> isDoT then
        rootAttacker i (updPlayer i (setStatus ''parry'' (JNum 0)) w)
      else steps [updPlayer i (loseHealth amount),
                  (if isDoT then (\<lambda>w. w) else hitEffects i),
                  dieIfDown i] w)"

section \<open>Per-tick decay (player.js, Player.update, section 2)\<close>

text \<open>
  The two decay loops: every cooldown, and every status entry whose value is a number,
  becomes \<open>Math.max(0, value - delta)\<close>.
\<close>

definition decayCooldowns :: "real \<Rightarrow> (string \<rightharpoonup> real) \<Rightarrow> (string \<rightharpoonup> real)" where
  "decayCooldowns delta cds = (\<lambda>k. map_option (\<lambda>x. max 0 (x - delta)) (cds k))"

definition decayStatus :: "real \<Rightarrow> statusTable \<Rightarrow> statusTable" where
  "decayStatus delta st =
     (\<lambda>k. case st k of Some (JNum x) \<Rightarrow> Some (JNum (max 0 (x - delta))) | v \<Rightarrow> v)"

definition decayPass :: "real \<Rightarrow> player \<Rightarrow> player" where
  "decayPass delta p =
     p\<lparr>cooldowns := decayCooldowns delta (cooldowns p),
       status := decayStatus delta (status p)\<rparr>"

section \<open>Status, damage over time and regeneration (Player.update, section 2)\<close>

text \<open>
  \<open>Player.updatePassive\<close>: the passive timers, the Imperial Will reset, then the Fortress
  and Event Horizon passives.
\<close>

definition tickTimer :: "real \<Rightarrow> real \<Rightarrow> real" where
  "tickTimer delta t = (if 0 < t then max 0 (t - delta) else t)"

definition passiveTimers :: "real \<Rightarrow> player \<Rightarrow> player" where
  "passiveTimers delta q =
     q\<lparr>firewallTimer := tickTimer delta (firewallTimer q),
       illusionTimer := tickTimer delta (illusionTimer q),
       fortressTimer := tickTimer delta (fortressTimer q),
       attackSpeedTimer := tickTimer delta (attackSpeedTimer q)\<rparr>"

definition imperialWill :: "player \<Rightarrow> player" where
  "imperialWill q =
     (if passiveName q = ''Imperial Will'' \<and> attackSpeedTimer q \<le> 0
      then q\<lparr>attackSpeedStacks := 0\<rparr> else q)"

definition fortressPassive :: "real \<Rightarrow> nat \<Rightarrow> world \<Rightarrow> world" where
  "fortressPassive delta i w =
     (if \<not> (0.1 < vlengthSq (velocity (players w ! i))) \<and> le0 (status (players w ! i) ''rooted'')
      then
        (if 2 \<le> fortressTimer (players w ! i) + delta
            \<and> numIs (\<lambda>x. x \<le> 0.1) (status (players w ! i) ''shielded'')
         then pushSpecial ''ShieldEffect'' (OwnerPlayer i) (Fin 0.5)
                (updPlayer i (\<lambda>q. q\<lparr>hp := min (maxHp q) (hp q + 20), fortressTimer := -5\<rparr>) w)
         else updPlayer i (\<lambda>q. q\<lparr>fortressTimer := fortressTimer q + delta\<rparr>) w)
      else updPlayer i (\<lambda>q. q\<lparr>fortressTimer := 0\<rparr>) w)"

definition pullOpponent :: "nat \<Rightarrow> nat \<Rightarrow> world \<Rightarrow> world" where
  "pullOpponent i j w =
     (if 5 < vlength (vsub (position (players w ! i)) (position (players w ! j)))
      then updPlayer j (\<lambda>q. q\<lparr>velocity := vadd (velocity q)
             (vscale 25 (vnormalize (vsub (position (players w ! i)) (position (players w ! j)))))\<rparr>) w
      else w)"

definition eventHorizonPassive :: "nat \<Rightarrow> nat option \<Rightarrow> world \<Rightarrow> world" where
  "eventHorizonPassive i opp w =
     (if numIs (\<lambda>x. 3 \<le> x) (status (players w ! i) ''gravityMarks'') then
        steps
          ([updPlayer i (setStatus ''gravityMarks'' (JNum 0)),
            updPlayer i (setStatus ''gravityMarkTimer'' (JNum 0))] @
           (case opp of
              None \<Rightarrow> []
            | Some j \<Rightarrow>
                [updPlayer j (setStatus ''rooted'' (JNum 1.5)),
                 pullOpponent i j,
                 pushSpecial ''ParticleSystem'' NoOwner (Fin 0.8)])) w
      else w)"

definition passiveSwitch :: "real \<Rightarrow> nat \<Rightarrow> nat option \<Rightarrow> world \<Rightarrow> world" where
  "passiveSwitch delta i opp w =
     (if passiveName (players w ! i) = ''Fortress'' then fortressPassive delta i w
      else if passiveName (players w ! i) = ''Event Horizon'' then eventHorizonPassive i opp w
      else w)"

definition updatePassive :: "real \<Rightarrow> nat \<Rightarrow> nat option \<Rightarrow> world \<Rightarrow> world" where
  "updatePassive delta i opp w =
     steps [updPlayer i (passiveTimers delta), updPlayer i imperialWill,
            passiveSwitch delta i opp] w"

text \<open>\<open>Player.updateDamageFlash\<close>.\<close>

definition updateDamageFlash :: "real \<Rightarrow> player \<Rightarrow> player" where
  "updateDamageFlash delta p =
     (if 0 < damageFlashTimer p then
        (if max 0 (damageFlashTimer p - delta) = 0
         then p\<lparr>damageFlashTimer := 0, originalEmissives := False\<rparr>
         else p\<lparr>damageFlashTimer := max 0 (damageFlashTimer p - delta)\<rparr>)
      else p)"

text \<open>The gravity-mark reset that follows the decay loops.\<close>

definition resetGravityMarks :: "player \<Rightarrow> player" where
  "resetGravityMarks p =
     (if le0 (status p ''gravityMarkTimer'') \<and> gt0 (status p ''gravityMarks'')
      then setStatus ''gravityMarks'' (JNum 0) p else p)"

text \<open>The venom tick on the fighter itself and the feedback-loop tick on the opponent.\<close>

definition venomTick :: "real \<Rightarrow> nat \<Rightarrow> world \<Rightarrow> world" where
  "venomTick delta i w =
     (if gt0 (status (players w ! i) ''venom'') then takeDamage i (10 * delta) True w else w)"

definition feedbackTick :: "real \<Rightarrow> nat \<Rightarrow> nat option \<Rightarrow> world \<Rightarrow> world" where
  "feedbackTick delta i opp w =
     (case opp of
        None \<Rightarrow> w
      | Some j \<Rightarrow>
          if gt0 (status (players w ! i) ''feedbackLoop'')
             \<and> energy (players w ! j) < maxEnergy (players w ! j)
          then takeDamage j (15 * delta) True w else w)"

text \<open>
  The delayed implosion: the timer is decremented again after the decay loop has already
  reduced it, and is not clamped.  When it runs out on a marked fighter, the fighter takes
  30 damage and is pulled towards the caster.
\<close>

definition pullToCaster :: "nat \<Rightarrow> nat \<Rightarrow> world \<Rightarrow> world" where
  "pullToCaster i c w =
     (if 0.01 < vlengthSq (vsub (position (players w ! c)) (position (players w ! i)))
      then updPlayer i (\<lambda>q. q\<lparr>velocity := vadd (velocity q)
             (vscale 20 (vnormalize (vsub (position (players w ! c)) (position (players w ! i)))))\<rparr>) w
      else w)"

definition implode :: "nat \<Rightarrow> world \<Rightarrow> world" where
  "implode i w =
     (case implosionTarget (players w ! i) of
        None \<Rightarrow> w
      | Some c \<Rightarrow>
          if le0 (status (players w ! i) ''implosionTimer'')
          then steps [takeDamage i 30 False, pullToCaster i c,
                      updPlayer i (\<lambda>q. q\<lparr>implosionTarget := None\<rparr>)] w
          else w)"

definition implosionTick :: "real \<Rightarrow> nat \<Rightarrow> world \<Rightarrow> world" where
  "implosionTick delta i w =
     (if gt0 (status (players w ! i) ''implosionTimer'') then
        implode i (updPlayer i (\<lambda>q. setStatus ''implosionTimer''
                     (JNum (orZero (status q ''implosionTimer'') - delta)) q) w)
      else w)"

definition energyRegen :: "bool \<Rightarrow> player \<Rightarrow> real" where
  "energyRegen rift p =
     (if passiveName p = ''Juggernaut''
      then (5 + (if rift then 15 else 0) + (if gt0 (status p ''riftBuff'') then 10 else 0)) * 0.8
      else 5 + (if rift then 15 else 0) + (if gt0 (status p ''riftBuff'') then 10 else 0))"

definition regenerate :: "real \<Rightarrow> bool \<Rightarrow> player \<Rightarrow> player" where
  "regenerate delta rift p =
     p\<lparr>energy := min (maxEnergy p) (energy p + energyRegen rift p * delta)\<rparr>"

definition regenTick :: "real \<Rightarrow> nat \<Rightarrow> world \<Rightarrow> world" where
  "regenTick delta i w = updPlayer i (regenerate delta (riftMode w)) w"

text \<open>
  Section 2 of \<open>Player.update(delta, opponent)\<close> for fighter \<open>i\<close>, in source order: the two
  decay loops, the gravity-mark reset, the venom and feedback-loop ticks, the implosion,
  energy regeneration, the passive tick and the damage flash.  The \<open>isDead\<close> test stands
  at the top of \<open>update\<close> only.
\<close>

definition updateStatusRegen :: "real \<Rightarrow> nat \<Rightarrow> nat option \<Rightarrow> world \<Rightarrow> world" where
  "updateStatusRegen delta i opp w =
     (if isDead (players w ! i) then w
      else steps [updPlayer i (decayPass delta),
                  updPlayer i resetGravityMarks,
                  venomTick delta i,
                  feedbackTick delta i opp,
                  implosionTick delta i,
                  regenTick delta i,
                  updatePassive delta i opp,
                  updPlayer i (updateDamageFlash delta)] w)"

text \<open>The state after the first five of these statements, the implosion block included.\<close>

definition afterImplosion :: "real \<Rightarrow> nat \<Rightarrow> nat option \<Rightarrow> world \<Rightarrow> world" where
  "afterImplosion delta i opp w =
     implosionTick delta i (feedbackTick delta i opp (venomTick delta i
       (updPlayer i resetGravityMarks (updPlayer i (decayPass delta) w))))"

section \<open>The damage rules in the words of the specification\<close>

text \<open>
  A second definition of damage application that follows the specification's list of
  defensive layers, for comparison with \<open>takeDamage\<close>: each layer either fully blocks,
  giving the state after the block, or passes the hit on; the first layer that blocks
  wins; damage over time is not stopped by any of the four blocks; what gets through is
  first multiplied by 1.3 if the target is corrupted, the result is then multiplied by 0.7
  if the target is empowered, and that is taken from health, floored at zero.  The cooldown of the blocking passive (20) and the root a parry
  inflicts (1.5) are the constants of the code.
\<close>

datatype verdict = Blocks world | PassesOn

definition deadLayer :: "nat \<Rightarrow> world \<Rightarrow> verdict" where
  "deadLayer i w = (if isDead (players w ! i) then Blocks w else PassesOn)"

definition shieldLayer :: "nat \<Rightarrow> bool \<Rightarrow> world \<Rightarrow> verdict" where
  "shieldLayer i isDoT w =
     (if isDoT then PassesOn
      else if gt0 (status (players w ! i) ''shielded'') then Blocks w else PassesOn)"

definition blockPassiveLayer :: "nat \<Rightarrow> bool \<Rightarrow> world \<Rightarrow> verdict" where
  "blockPassiveLayer i isDoT w =
     (if isDoT then PassesOn
      else if passiveName (players w ! i) = ''Firewall'' \<and> firewallTimer (players w ! i) \<le> 0
      then Blocks (updPlayer i (\<lambda>q. q\<lparr>firewallTimer := 20\<rparr>) w) else PassesOn)"

definition spellShieldLayer :: "nat \<Rightarrow> bool \<Rightarrow> world \<Rightarrow> verdict" where
  "spellShieldLayer i isDoT w =
     (if isDoT then PassesOn
      else if gt0 (status (players w ! i) ''spellShield'')
      then Blocks (updPlayer i (setStatus ''spellShield'' (JNum 0)) w) else PassesOn)"

definition parryLayer :: "nat \<Rightarrow> bool \<Rightarrow> world \<Rightarrow> verdict" where
  "parryLayer i isDoT w =
     (if isDoT then PassesOn
      else if gt0 (status (players w ! i) ''parry'')
      then Blocks (rootAttacker i (updPlayer i (setStatus ''parry'' (JNum 0)) w))
      else PassesOn)"

fun firstBlock :: "(world \<Rightarrow> verdict) list \<Rightarrow> world \<Rightarrow> world option" where
  "firstBlock [] w = None"
| "firstBlock (l # ls) w = (case l w of Blocks w' \<Rightarrow> Some w' | PassesOn \<Rightarrow> firstBlock ls w)"

definition corruptionStep :: "player \<Rightarrow> real \<Rightarrow> real" where
  "corruptionStep p d = (if gt0 (status p ''corruption'') then d * 1.3 else d)"

definition empowermentStep :: "player \<Rightarrow> real \<Rightarrow> real" where
  "empowermentStep p d = (if gt0 (status p ''empowered'') then d * 0.7 else d)"

definition applyDamage_spec :: "nat \<Rightarrow> real \<Rightarrow> bool \<Rightarrow> world \<Rightarrow> world" where
  "applyDamage_spec i amount isDoT w =
     (case firstBlock [deadLayer i, shieldLayer i isDoT, blockPassiveLayer i isDoT,
                       spellShieldLayer i isDoT, parryLayer i isDoT] w of
        Some w' \<Rightarrow> w'
      | None \<Rightarrow>
          updPlayer i (\<lambda>q. q\<lparr>hp := max 0 (hp q - empowermentStep q (corruptionStep q amount))\<rparr>) w)"

text \<open>
  What the damage rules decide about each fighter: health, the status table and the
  cooldown of the blocking passive.
\<close>

definition combatView :: "world \<Rightarrow> (real \<times> statusTable \<times> real) list" where
  "combatView w = map (\<lambda>p. (hp p, status p, firewallTimer p)) (players w)"

section \<open>Projectiles (game-objects.js)\<close>

text \<open>
  Colliders are boxes computed by three.js from meshes that \<open>models.js\<close> builds; the
  intersection tests are therefore inputs.
\<close>

record geom =
  hitsPlayer :: "projectile \<Rightarrow> player \<Rightarrow> bool"
  hitsObstacle :: "projectile \<Rightarrow> bool"
  hitsObject :: "projectile \<Rightarrow> gobj \<Rightarrow> bool"

definition setProj :: "nat \<Rightarrow> projectile \<Rightarrow> world \<Rightarrow> world" where
  "setProj k pr w = w\<lparr>projectiles := (projectiles w)[k := pr]\<rparr>"

text \<open>
  \<open>Projectile.destroy\<close>: the callback of Crushing Singularity pushes its zone, a particle
  burst is pushed, and the flag is set.  The projectile stays in the list.
\<close>

definition destroyProjectile :: "nat \<Rightarrow> world \<Rightarrow> world" where
  "destroyProjectile k w =
     (let pr = projectiles w ! k in
      if pDestroyed pr then w
      else
        let w1 = (if onDestroy pr
                  then pushSpecial ''CrushingSingularity'' (powner pr) (Fin 3) w else w);
            w2 = pushSpecial ''ParticleSystem'' NoOwner (Fin 0.5) w1
        in setProj k (pr\<lparr>pDestroyed := True\<rparr>) w2)"

text \<open>
  \<open>projectiles.push(new Projectile(owner, direction, damage, speed, options))\<close> with a
  fighter as owner: damage is raised by half under the rift buff, the projectile starts in
  front of and above its owner with a grace period of 0.1, and the constructor pushes a
  muzzle particle burst and plays a sound.
\<close>

definition fireProjectile ::
  "nat \<Rightarrow> vec3 \<Rightarrow> real \<Rightarrow> real \<Rightarrow> real \<Rightarrow> (string \<times> jsval) list option \<Rightarrow> bool \<Rightarrow> bool
   \<Rightarrow> world \<Rightarrow> world" where
  "fireProjectile i dir dmg spd life effs pierce cb w =
     (playSound ''shoot'' (pushSpecial ''ParticleSystem'' NoOwner (Fin 0.3) w))
       \<lparr>projectiles := projectiles w @
          [\<lparr>pid = length (projectiles w), powner = OwnerPlayer i, pownerOwner = NoOwner,
            pduration = life,
            pdamage = (if gt0 (status (players w ! i) ''riftBuff'') then dmg * 1.5 else dmg),
            pspeed = spd,
            pposition = vadd (vadd (position (players w ! i)) \<lparr>vx = 0, vy = 2, vz = 0\<rparr>)
                             (vscale 1.5 dir),
            pdirection = dir, effects = effs, piercing = pierce, hitPlayers = [],
            gracePeriod = 0.1, onDestroy = cb, pDestroyed = False\<rparr>]\<rparr>"

text \<open>The fighter a projectile must not hit.\<close>

definition projOwnerPlayer :: "projectile \<Rightarrow> nat option" where
  "projOwnerPlayer pr =
     (case powner pr of
        OwnerPlayer j \<Rightarrow> Some j
      | _ \<Rightarrow> (case pownerOwner pr of OwnerPlayer j \<Rightarrow> Some j | _ \<Rightarrow> None))"

text \<open>
  The on-hit effects: for every key of the literal whose value is a number,
  \<open>p.status[key] = (p.status[key] || 0) + effects[key]\<close>.
\<close>

fun applyEffects :: "(string \<times> jsval) list \<Rightarrow> statusTable \<Rightarrow> statusTable" where
  "applyEffects [] st = st"
| "applyEffects ((k, JNum e) # es) st = applyEffects es (st(k \<mapsto> JNum (orZero (st k) + e)))"
| "applyEffects ((k, JBool b) # es) st = applyEffects es st"

text \<open>
  The body of the loop over fighters in \<open>Projectile.update\<close>, for projectile \<open>k\<close> and
  fighter \<open>j\<close>: the guard, the hit (damage, then the effects, whatever the damage call
  did), and what follows the hit.  The second component of the result is true when
  \<open>update\<close> returns from inside the loop.
\<close>

definition canHit :: "geom \<Rightarrow> nat \<Rightarrow> nat \<Rightarrow> world \<Rightarrow> bool" where
  "canHit g k j w =
     (projOwnerPlayer (projectiles w ! k) \<noteq> Some j \<and> \<not> isDead (players w ! j)
      \<and> j \<notin> set (hitPlayers (projectiles w ! k))
      \<and> hitsPlayer g (projectiles w ! k) (players w ! j))"

definition addEffects :: "nat \<Rightarrow> nat \<Rightarrow> world \<Rightarrow> world" where
  "addEffects k j w =
     (case effects (projectiles w ! k) of
        None \<Rightarrow> w
      | Some es \<Rightarrow> updPlayer j (\<lambda>q. q\<lparr>status := applyEffects es (status q)\<rparr>) w)"

definition hitPlayer :: "nat \<Rightarrow> nat \<Rightarrow> world \<Rightarrow> world" where
  "hitPlayer k j w = addEffects k j (takeDamage j (pdamage (projectiles w ! k)) False w)"

definition afterHit :: "nat \<Rightarrow> nat \<Rightarrow> world \<Rightarrow> world \<times> bool" where
  "afterHit k j w =
     (if \<not> piercing (projectiles w ! k) then (destroyProjectile k w, True)
      else (setProj k ((projectiles w ! k)\<lparr>hitPlayers := hitPlayers (projectiles w ! k) @ [j]\<rparr>) w,
            False))"

definition collidePlayer :: "geom \<Rightarrow> nat \<Rightarrow> nat \<Rightarrow> world \<Rightarrow> world \<times> bool" where
  "collidePlayer g k j w =
     (if canHit g k j w then afterHit k j (hitPlayer k j w) else (w, False))"

fun playersLoop :: "geom \<Rightarrow> nat \<Rightarrow> nat list \<Rightarrow> world \<Rightarrow> world \<times> bool" where
  "playersLoop g k [] w = (w, False)"
| "playersLoop g k (j # js) w =
     (case collidePlayer g k j w of
        (w', True) \<Rightarrow> (w', True)
      | (w', False) \<Rightarrow> playersLoop g k js w')"

text \<open>The scan over the special objects; destroyed entries are skipped.\<close>

definition ownerCheck :: "projectile \<Rightarrow> gobj \<Rightarrow> bool" where
  "ownerCheck pr ob =
     (powner pr = OwnerObject (oid ob) \<or> owner ob = powner pr
      \<or> pownerOwner pr = OwnerObject (oid ob))"

definition damageable :: "gobj \<Rightarrow> bool" where
  "damageable ob = (className ob \<in> {''SentryTurret'', ''SandSoldier'', ''AnvilTurret''})"

definition stopsProjectile :: "geom \<Rightarrow> projectile \<Rightarrow> gobj \<Rightarrow> bool" where
  "stopsProjectile g pr ob =
     (\<not> isDestroyed ob \<and> \<not> ownerCheck pr ob \<and> hasCollider ob \<and> hitsObject g pr ob
      \<and> (blocksProjectiles ob \<or> damageable ob))"

text \<open>The \<open>takeDamage\<close> of the turret and soldier classes.\<close>

definition objTakeDamage :: "real \<Rightarrow> gobj \<Rightarrow> gobj" where
  "objTakeDamage amount ob =
     (let h = ohp ob - amount
      in if h \<le> 0 then ob\<lparr>ohp := h, duration := Fin 0\<rparr> else ob\<lparr>ohp := h\<rparr>)"

definition damageObject :: "nat \<Rightarrow> real \<Rightarrow> world \<Rightarrow> world" where
  "damageObject a amount w =
     w\<lparr>specialObjects :=
          map (\<lambda>x. if oid x = a then objTakeDamage amount x else x) (specialObjects w)\<rparr>"

definition objectsScan :: "geom \<Rightarrow> nat \<Rightarrow> world \<Rightarrow> world" where
  "objectsScan g k w =
     (case List.find (stopsProjectile g (projectiles w ! k)) (specialObjects w) of
        None \<Rightarrow> w
      | Some ob \<Rightarrow>
          if blocksProjectiles ob then destroyProjectile k w
          else destroyProjectile k (damageObject (oid ob) (pdamage (projectiles w ! k)) w))"

text \<open>
  \<open>Projectile.update(delta, players)\<close> for projectile \<open>k\<close>: age and expire, stop when
  frozen, move, wait out the grace period, then the three collision scans.
\<close>

definition scanCollisions :: "geom \<Rightarrow> nat \<Rightarrow> world \<Rightarrow> world" where
  "scanCollisions g k w =
     (case playersLoop g k [0..<length (players w)] w of
        (w', True) \<Rightarrow> w'
      | (w', False) \<Rightarrow>
          if hitsObstacle g (projectiles w' ! k) then destroyProjectile k w'
          else objectsScan g k w')"

definition moveProjectile :: "geom \<Rightarrow> real \<Rightarrow> nat \<Rightarrow> world \<Rightarrow> world" where
  "moveProjectile g delta k w =
     (if pspeed (projectiles w ! k) < 0.1 then w
      else if 0 < gracePeriod (projectiles w ! k)
      then setProj k ((projectiles w ! k)
             \<lparr>pposition := vadd (pposition (projectiles w ! k))
                  (vscale (pspeed (projectiles w ! k) * delta) (pdirection (projectiles w ! k))),
              gracePeriod := gracePeriod (projectiles w ! k) - delta\<rparr>) w
      else scanCollisions g k
             (setProj k ((projectiles w ! k)
                \<lparr>pposition := vadd (pposition (projectiles w ! k))
                     (vscale (pspeed (projectiles w ! k) * delta) (pdirection (projectiles w ! k)))\<rparr>) w))"

definition ageProjectile :: "real \<Rightarrow> nat \<Rightarrow> world \<Rightarrow> world" where
  "ageProjectile delta k w =
     setProj k ((projectiles w ! k)\<lparr>pduration := pduration (projectiles w ! k) - delta\<rparr>) w"

definition projectileUpdate :: "geom \<Rightarrow> real \<Rightarrow> nat \<Rightarrow> world \<Rightarrow> world" where
  "projectileUpdate g delta k w =
     (if pDestroyed (projectiles w ! k) then w
      else if pduration (projectiles w ! k) - delta \<le> 0
      then destroyProjectile k (ageProjectile delta k w)
      else moveProjectile g delta k (ageProjectile delta k w))"

text \<open>
  The four defensive layers of \<open>takeDamage\<close>: true when a non-DoT hit on the live fighter
  \<open>j\<close> is fully blocked.
\<close>

definition blocked :: "nat \<Rightarrow> world \<Rightarrow> bool" where
  "blocked j w =
     (let p = players w ! j in
      gt0 (status p ''shielded'')
      \<or> (passiveName p = ''Firewall'' \<and> firewallTimer p \<le> 0)
      \<or> gt0 (status p ''spellShield'')
      \<or> gt0 (status p ''parry''))"

section \<open>Skill invocation (player.js, useSkill)\<close>

text \<open>
  An exception leaves the state as the statements before it made it, so a call returns
  the error, if any, together with the state.
\<close>

datatype jsError = TypeError | ReferenceError

type_synonym outcome = "jsError option \<times> world"

text \<open>\<open>this.cooldowns[skillKey] > 0\<close> and \<open>this.cooldowns[skillKey] <= 0\<close>; both are false
  when the entry is undefined.\<close>

definition onCooldown :: "player \<Rightarrow> string \<Rightarrow> bool" where
  "onCooldown p key = (case cooldowns p key of None \<Rightarrow> False | Some c \<Rightarrow> 0 < c)"

definition offCooldown :: "player \<Rightarrow> string \<Rightarrow> bool" where
  "offCooldown p key = (case cooldowns p key of None \<Rightarrow> False | Some c \<Rightarrow> c \<le> 0)"

text \<open>
  The skill object \<open>useSkill\<close> looks at: a literal with cost 0 for the basic attack (it has
  no name and no tags), otherwise \<open>this.skills[skillKey]\<close>, \<open>None\<close> when undefined.  The
  callers pass \<open>basicAttack\<close> and \<open>s1\<close> to \<open>s4\<close> only.
\<close>

definition skillFor :: "player \<Rightarrow> string \<Rightarrow> skill option" where
  "skillFor p key =
     (if key = ''basicAttack''
      then Some \<lparr>sname = [], cost = 0,
                  cd = (if gt0 (status p ''siege'') then 1.5 else 0.5), tags = []\<rparr>
      else skills p key)"

text \<open>
  \<open>Player.useSkill(skillKey)\<close> for fighter \<open>i\<close>.  Its last statement calls
  \<open>this.executeSkill(skillKey)\<close>, the per-skill switch; that body is the argument \<open>exec\<close>,
  so that what is proved of the guards holds whatever the switch does.
\<close>

definition pushSkillEvent :: "nat \<Rightarrow> string \<Rightarrow> world \<Rightarrow> world" where
  "pushSkillEvent i key w =
     (if isOnline w \<and> \<not> isAI (players w ! i)
      then w\<lparr>skillEvents := skillEvents w @ [key]\<rparr> else w)"

definition useSkill :: "(string \<Rightarrow> nat \<Rightarrow> world \<Rightarrow> outcome) \<Rightarrow> nat \<Rightarrow> string \<Rightarrow> world \<Rightarrow> outcome" where
  "useSkill exec i key w =
     (if isDead (players w ! i) \<or> onCooldown (players w ! i) key
         \<or> gt0 (status (players w ! i) ''silenced'')
      then (None, w)
      else case skillFor (players w ! i) key of
             None \<Rightarrow> (None, w)
           | Some sk \<Rightarrow>
               if energy (players w ! i) < cost sk then (None, w)
               else exec key i (pushSkillEvent i key w))"

text \<open>
  The invalid invocations of the specification: the fighter is dead, the skill is on
  cooldown, the fighter is silenced, the key names no skill, or the energy does not cover
  the cost.
\<close>

definition invalidInvocation :: "nat \<Rightarrow> string \<Rightarrow> world \<Rightarrow> bool" where
  "invalidInvocation i key w =
     (isDead (players w ! i) \<or> onCooldown (players w ! i) key
      \<or> gt0 (status (players w ! i) ''silenced'')
      \<or> (case skillFor (players w ! i) key of
            None \<Rightarrow> True
          | Some sk \<Rightarrow> energy (players w ! i) < cost sk))"

section \<open>The AI controller (ai.js)\<close>

definition setAiState :: "nat \<Rightarrow> (aiState \<Rightarrow> aiState) \<Rightarrow> world \<Rightarrow> world" where
  "setAiState i f w = updPlayer i (\<lambda>q. q\<lparr>aiSt := map_option f (aiSt q)\<rparr>) w"

text \<open>
  The reflex layer of \<open>runAI\<close> (lines 129 to 157).  The threat list, the value of
  \<open>Math.random()\<close> and the result of \<open>findBestEscapePath\<close> are inputs.  A dodge is not
  performed here: \<open>setTimeout\<close> queues it with the tier's reaction latency.
\<close>

definition reflexLayer :: "real \<Rightarrow> nat \<Rightarrow> bool \<Rightarrow> real \<Rightarrow> vec3 option \<Rightarrow> world \<Rightarrow> outcome" where
  "reflexLayer delta i threats roll best w =
     (case (aiSt (players w ! i), aiCfg (players w ! i)) of
        (Some st, Some cfg) \<Rightarrow>
          (let w1 = setAiState i (\<lambda>a. a\<lparr>dodgeCooldown := dodgeCooldown a - delta\<rparr>) w in
           if dodgeCooldown st - delta \<le> 0 \<and> threats \<and> roll < dodgeChance cfg then
             (case best of
                None \<Rightarrow> (None, w1)
              | Some path \<Rightarrow>
                  (None, setAiState i (\<lambda>a. a\<lparr>dodgeCooldown :=
                            1.0 / (if dodgeChance cfg = 0 then 0.1 else dodgeChance cfg),
                            strategy := ''DODGING''\<rparr>)
                           (w1\<lparr>timers := timers w1 @ [(dodgeReaction cfg * 1000, i, path)]\<rparr>)))
           else (None, w1))
      | _ \<Rightarrow> (Some TypeError, w))"

text \<open>
  The delayed callback, run on the state at the time it fires: the guard on \<open>ai.isDead\<close>,
  then either Phase Shift as the dodge (Echo Prime, off cooldown and affordable), with the
  aim turned to the escape direction, or the velocity set to the escape direction at 1.8
  times the speed.
\<close>

definition dodgeAction :: "(string \<Rightarrow> nat \<Rightarrow> world \<Rightarrow> outcome) \<Rightarrow> nat \<Rightarrow> vec3 \<Rightarrow> world \<Rightarrow> outcome" where
  "dodgeAction exec i path w =
     (if isDead (players w ! i) then (None, w)
      else if characterKey (players w ! i) = ''ECHO_PRIME'' \<and> offCooldown (players w ! i) ''s2'' then
        (case skills (players w ! i) ''s2'' of
           None \<Rightarrow> (Some TypeError, w)
         | Some sk \<Rightarrow>
             if cost sk \<le> energy (players w ! i)
             then useSkill exec i ''s2'' (updPlayer i (\<lambda>q. q\<lparr>aimDirection := path\<rparr>) w)
             else (None, updPlayer i (\<lambda>q. q\<lparr>velocity := vscale (speed q * 1.8) path\<rparr>) w))
      else (None, updPlayer i (\<lambda>q. q\<lparr>velocity := vscale (speed q * 1.8) path\<rparr>) w))"

text \<open>The oldest pending callback fires and leaves the queue.\<close>

definition fireTimer :: "(string \<Rightarrow> nat \<Rightarrow> world \<Rightarrow> outcome) \<Rightarrow> world \<Rightarrow> outcome" where
  "fireTimer exec w =
     (case timers w of
        [] \<Rightarrow> (None, w)
      | (d, i, path) # rest \<Rightarrow> dodgeAction exec i path (w\<lparr>timers := rest\<rparr>))"

text \<open>
  \<open>runTacticalBrain\<close> for the AI fighter \<open>i\<close> against \<open>j\<close>, given the line-of-sight verdict
  of the situational analysis.  With the path blocked it sets the strategy, computes the
  flank direction and then calls \<open>copy\<close> on \<open>ai.aiState.repositionTarget\<close>; no statement of
  the repository ever creates that property.  The rest of the function (skill choice and
  default strategy, lines 332 to 350) is the argument \<open>offense\<close>.
\<close>

definition flankPoint :: "player \<Rightarrow> player \<Rightarrow> vec3" where
  "flankPoint ai opp =
     vadd (position opp)
          (vscale 10 (vnormalize (rotateQuarterY (vsub (position opp) (position ai)))))"

definition runTacticalBrain ::
  "(nat \<Rightarrow> nat \<Rightarrow> world \<Rightarrow> outcome) \<Rightarrow> nat \<Rightarrow> nat \<Rightarrow> bool \<Rightarrow> world \<Rightarrow> outcome" where
  "runTacticalBrain offense i j isPathBlocked w =
     (if isPathBlocked then
        (case aiSt (players w ! i) of
           None \<Rightarrow> (Some TypeError, w)
         | Some st \<Rightarrow>
             (case repositionTarget st of
                None \<Rightarrow> (Some TypeError, setAiState i (\<lambda>a. a\<lparr>strategy := ''REPOSITION''\<rparr>) w)
              | Some t \<Rightarrow>
                  (None, setAiState i (\<lambda>a. a\<lparr>strategy := ''REPOSITION'',
                           repositionTarget := Some (flankPoint (players w ! i) (players w ! j))\<rparr>) w)))
      else offense i j w)"

text \<open>
  \<open>executeMovement\<close>: the move direction and speed a strategy gives, as the switch
  computes them.  \<open>DEFEND_TURRET\<close> reads \<open>specialObjects\<close>, which is not bound in \<open>ai.js\<close>;
  \<open>REPOSITION\<close> reads the reposition target.  The value of \<open>Math.random() < 0.5\<close> is the
  input \<open>coin\<close>.  The third component is the strategy after the switch.
\<close>

definition chooseMove ::
  "bool \<Rightarrow> aiConfig \<Rightarrow> aiState \<Rightarrow> player \<Rightarrow> player \<Rightarrow> jsError + (vec3 \<times> real \<times> string)" where
  "chooseMove coin cfg st ai opp =
     (let s = strategy st; dist = distanceTo (position ai) (position opp) in
      if s = ''RETREAT_TO_CAST''
      then Inr (vnormalize (vsub (position ai) (position opp)), speed ai, s)
      else if s = ''KITE'' then
        (if dist < engagementRange cfg * 0.7
         then Inr (vnormalize (vsub (position ai) (position opp)), speed ai, s)
         else if engagementRange cfg * 0.9 < dist
         then Inr (vnormalize (vsub (position opp) (position ai)), speed ai, s)
         else Inr (vscale (if coin then -1 else 1)
                     (vnormalize (rotateQuarterY (vsub (position opp) (position ai)))),
                   speed ai, s))
      else if s = ''DEFEND_TURRET'' then Inl ReferenceError
      else if s = ''REPOSITION'' then
        (case repositionTarget st of
           None \<Rightarrow> Inl TypeError
         | Some t \<Rightarrow>
             if vlength (vsub t (position ai)) < 2
             then Inr (vsub t (position ai), speed ai, ''KITE'')
             else Inr (vnormalize (vsub t (position ai)), speed ai, s))
      else if s = ''CHASE''
      then Inr (vnormalize (vsub (position opp) (position ai)), speed ai, s)
      else Inr (vzero, 0, s))"

text \<open>\<open>lerp(v, alpha)\<close> of three.js.\<close>

definition vlerp :: "vec3 \<Rightarrow> vec3 \<Rightarrow> real \<Rightarrow> vec3" where
  "vlerp a b alpha = vadd a (vscale alpha (vsub b a))"

definition executeMovement :: "bool \<Rightarrow> nat \<Rightarrow> nat \<Rightarrow> world \<Rightarrow> outcome" where
  "executeMovement coin i j w =
     (case (aiSt (players w ! i), aiCfg (players w ! i)) of
        (Some st, Some cfg) \<Rightarrow>
          (case chooseMove coin cfg st (players w ! i) (players w ! j) of
             Inl e \<Rightarrow> (Some e, w)
           | Inr (move, targetSpeed, s) \<Rightarrow>
               (None,
                updPlayer i
                  (\<lambda>q. q\<lparr>aiSt := Some (st\<lparr>strategy := s\<rparr>),
                         aimDirection :=
                           (if 0 < aimLag cfg
                            then vnormalize (vlerp (aimDirection q)
                                   (vnormalize (vsub (position (players w ! j)) (position q)))
                                   (1.0 - aimLag cfg))
                            else vnormalize (vsub (position (players w ! j)) (position q))),
                         velocity :=
                           (if 0 < targetSpeed \<and> 0 < vlengthSq move
                            then vscale targetSpeed move else velocity q)\<rparr>) w))
      | _ \<Rightarrow> (Some TypeError, w))"

section \<open>Outcome arbitration (main.js, animate)\<close>





text \<open>
  The health lost during a tick: the \<open>takeDamage\<close> calls that the fighters' updates, the
  projectiles and the special objects make, in the order they are made.
\<close>

fun damageEvents :: "(nat \<times> real \<times> bool) list \<Rightarrow> world \<Rightarrow> world" where
  "damageEvents [] w = w"
| "damageEvents ((i, amount, isDoT) # evs) w = damageEvents evs (takeDamage i amount isDoT w)"

section \<open>Starting a match (main.js)\<close>

text \<open>
  The constructor pushes the fighter's aura and its four status visuals onto the special
  objects; \<open>startGame\<close> then installs the two fighters.  Fighters are named by their index
  in \<open>players\<close>.  The second fighter is AI-controlled when a tier is given.
\<close>

definition constructPlayer :: "nat \<Rightarrow> world \<Rightarrow> world" where
  "constructPlayer idx w =
     (pushSpecial ''StatusEffectVisual'' (OwnerPlayer idx) Infinity \<circ>
      pushSpecial ''StatusEffectVisual'' (OwnerPlayer idx) Infinity \<circ>
      pushSpecial ''StatusEffectVisual'' (OwnerPlayer idx) Infinity \<circ>
      pushSpecial ''StatusEffectVisual'' (OwnerPlayer idx) Infinity \<circ>
      pushSpecial ''PlayerAura'' (OwnerPlayer idx) Infinity) w"

definition startGame ::
  "string \<Rightarrow> character \<Rightarrow> string \<Rightarrow> character \<Rightarrow> aiConfig option \<Rightarrow> world \<Rightarrow> world" where
  "startGame k1 d1 k2 d2 tier w =
     (if gameStateName w = ''ACTIVE'' then w
      else
        let a1 = nextId w; w1 = constructPlayer 0 w;
            a2 = nextId w1; w2 = constructPlayer 1 w1
        in w2\<lparr>gameEnded := False, gameStateName := ''ACTIVE'',
              players := [newPlayer 1 k1 d1 None (Some a1), newPlayer 2 k2 d2 tier (Some a2)]\<rparr>)"

definition emptyWorld :: world where
  "emptyWorld = \<lparr>players = [], projectiles = [], specialObjects = [], nextId = 0,
     gameStateName = ''CHAR_SELECT'', gameEnded = False, winner = None, riftMode = False,
     isOnline = False, audioReady = False, soundLog = [], skillEvents = [], timers = []\<rparr>"

section \<open>Skill effects used as inputs (player.js, executeSkill)\<close>

text \<open>
  \<open>status.gravityMarks++\<close>, or \<open>= 1\<close> when the entry is undefined, followed by the reset of
  the mark timer to 4 seconds.
\<close>

definition addGravityMark :: "player \<Rightarrow> player" where
  "addGravityMark q =
     setStatus ''gravityMarkTimer'' (JNum 4)
       (setStatus ''gravityMarks''
          (JNum (case status q ''gravityMarks'' of None \<Rightarrow> 1 | Some v \<Rightarrow> orZero (Some v) + 1)) q)"

text \<open>
  The Implosion case: the caster \<open>i\<close> marks the live opponent \<open>j\<close> with a 3 second timer,
  deals 15 damage and adds a gravity mark.  The effect's constructor pushes its own
  particle system first.
\<close>

definition castImplosion :: "nat \<Rightarrow> nat \<Rightarrow> world \<Rightarrow> world" where
  "castImplosion i j w =
     (if isDead (players w ! j) then w
      else steps [updPlayer j (\<lambda>q. (setStatus ''implosionTimer'' (JNum 3) q)\<lparr>implosionTarget := Some i\<rparr>),
                  pushSpecial ''ParticleSystem'' NoOwner (Fin 3),
                  pushSpecial ''ImplosionEffect'' (OwnerPlayer i) (Fin 3),
                  takeDamage j 15 False,
                  updPlayer j addGravityMark] w)"

text \<open>The Energy Shield case: five seconds of the shielded status.\<close>

definition castEnergyShield :: "nat \<Rightarrow> world \<Rightarrow> world" where
  "castEnergyShield i w =
     pushSpecial ''ShieldEffect'' (OwnerPlayer i) (Fin 5)
       (updPlayer i (setStatus ''shielded'' (JNum 5)) w)"

text \<open>The Corruption case: a projectile of 5 damage that adds 5 seconds of corruption.\<close>

definition castCorruption :: "nat \<Rightarrow> world \<Rightarrow> world" where
  "castCorruption i w =
     fireProjectile i (aimDirection (players w ! i)) 5 20 3
       (Some [(''corruption'', JNum 5)]) False False w"

section \<open>The writes to health and energy (player.js)\<close>

text \<open>
  Besides \<open>takeDamage\<close>, \<open>die\<close>, the Fortress heal and the regeneration of the tick, these
  are the statements of \<open>Player\<close> that assign \<open>hp\<close> or \<open>energy\<close>.  The cost of a skill
  (\<open>executeSkill\<close>, local branch): the energy is tested again, the cost is taken and the
  cooldown is set, shortened by the Time Flux passive.
\<close>

definition payCost :: "nat \<Rightarrow> string \<Rightarrow> world \<Rightarrow> world" where
  "payCost i key w =
     (case skills (players w ! i) key of
        None \<Rightarrow> w
      | Some sk \<Rightarrow>
          if energy (players w ! i) < cost sk then w
          else updPlayer i
                 (\<lambda>q. q\<lparr>energy := energy q - cost sk,
                        cooldowns := (cooldowns q)(key \<mapsto>
                          (if passiveName q = ''Time Flux'' then cd sk * 0.95 else cd sk))\<rparr>) w)"

text \<open>The energy of the Resonance passive on every third basic attack.\<close>

definition resonanceGain :: "nat \<Rightarrow> world \<Rightarrow> world" where
  "resonanceGain i w = updPlayer i (\<lambda>q. q\<lparr>energy := min (maxEnergy q) (energy q + 10)\<rparr>) w"

text \<open>The Mana Burn passive: a basic attack takes 5 energy from the opponent.\<close>

definition manaBurn :: "nat \<Rightarrow> world \<Rightarrow> world" where
  "manaBurn i w =
     (case findOpponent i w of
        None \<Rightarrow> w
      | Some j \<Rightarrow> updPlayer j (\<lambda>q. q\<lparr>energy := max 0 (energy q - 5)\<rparr>) w)"

text \<open>The cases Overcharge, System Crash, Salvation, Energy Void and Rewind.\<close>

definition overcharge :: "nat \<Rightarrow> world \<Rightarrow> world" where
  "overcharge i w =
     steps [updPlayer i (setStatus ''empowered'' (JNum 8)),
            updPlayer i (\<lambda>q. q\<lparr>energy := min (maxEnergy q) (energy q + 50)\<rparr>),
            pushSpecial ''StatusAura'' (OwnerPlayer i) (Fin 8)] w"

definition systemCrash :: "nat \<Rightarrow> world \<Rightarrow> world" where
  "systemCrash i w =
     pushSpecial ''ExpandingRing'' NoOwner (Fin 0.8)
       (case findOpponent i w of
          None \<Rightarrow> w
        | Some j \<Rightarrow>
            if isDead (players w ! j) then w
            else steps [takeDamage j 30 False,
                        updPlayer j (\<lambda>q. q\<lparr>energy := 0\<rparr>),
                        updPlayer j (setStatus ''silenced'' (JNum 4))] w)"

definition salvation :: "nat \<Rightarrow> world \<Rightarrow> world" where
  "salvation i w =
     pushSpecial ''ExpandingRing'' NoOwner (Fin 1)
       (if hp (players w ! i) < maxHp (players w ! i)
        then updPlayer i (\<lambda>q. q\<lparr>hp := min (maxHp q) (hp q + 70)\<rparr>) w
        else w)"

definition energyVoid :: "nat \<Rightarrow> world \<Rightarrow> world" where
  "energyVoid i w =
     (case findOpponent i w of
        None \<Rightarrow> w
      | Some j \<Rightarrow>
          if isDead (players w ! j) then w
          else steps [updPlayer j (\<lambda>q. q\<lparr>energy := energy q - energy (players w ! j) * 0.6\<rparr>),
                      updPlayer i (\<lambda>q. q\<lparr>energy :=
                         min (maxEnergy q) (energy q + energy (players w ! j) * 0.6)\<rparr>),
                      takeDamage j (energy (players w ! j) * 0.6 * 0.5) False,
                      pushSpecial ''ExpandingRing'' NoOwner (Fin 1)] w)"

definition rewind :: "nat \<Rightarrow> world \<Rightarrow> world" where
  "rewind i w =
     (case rewindPositions (players w ! i) of
        [] \<Rightarrow> w
      | (pos, h, e) # rest \<Rightarrow>
          steps [pushSpecial ''ParticleSystem'' NoOwner (Fin 0.7),
                 updPlayer i (\<lambda>q. q\<lparr>position := pos, hp := h, energy := e\<rparr>),
                 pushSpecial ''ParticleSystem'' NoOwner (Fin 0.7)] w)"

text \<open>
  The snapshot that Rewind reads, taken at the end of \<open>Player.update\<close> every quarter of a
  second; the list keeps the last 20.
\<close>

definition recordRewind :: "real \<Rightarrow> player \<Rightarrow> player" where
  "recordRewind delta q =
     (if 0.25 < rewindTimer q + delta then
        q\<lparr>rewindTimer := 0,
          rewindPositions :=
            (if 20 < length (rewindPositions q @ [(position q, hp q, energy q)])
             then tl (rewindPositions q @ [(position q, hp q, energy q)])
             else rewindPositions q @ [(position q, hp q, energy q)])\<rparr>
      else q\<lparr>rewindTimer := rewindTimer q + delta\<rparr>)"

text \<open>
  The operations of a match on health and energy: a hit or a DoT tick, section 2 of the
  update, the snapshot, and the statements above.
\<close>

datatype op =
    Damage nat real bool
  | Tick real nat "nat option"
  | Snapshot real nat
  | PayCost nat string
  | ResonanceGain nat
  | ManaBurn nat
  | Overcharge nat
  | SystemCrash nat
  | Salvation nat
  | EnergyVoid nat
  | Rewind nat

fun applyOp :: "op \<Rightarrow> world \<Rightarrow> world" where
  "applyOp (Damage i amount isDoT) w = takeDamage i amount isDoT w"
| "applyOp (Tick delta i opp) w = updateStatusRegen delta i opp w"
| "applyOp (Snapshot delta i) w = updPlayer i (recordRewind delta) w"
| "applyOp (PayCost i key) w = payCost i key w"
| "applyOp (ResonanceGain i) w = resonanceGain i w"
| "applyOp (ManaBurn i) w = manaBurn i w"
| "applyOp (Overcharge i) w = overcharge i w"
| "applyOp (SystemCrash i) w = systemCrash i w"
| "applyOp (Salvation i) w = salvation i w"
| "applyOp (EnergyVoid i) w = energyVoid i w"
| "applyOp (Rewind i) w = rewind i w"

definition applyOps :: "op list \<Rightarrow> world \<Rightarrow> world" where
  "applyOps ops w = fold applyOp ops w"

text \<open>
  Damage amounts and elapsed times are never negative in the callers, and the keys that
  reach the cost statement are \<open>s1\<close> to \<open>s4\<close>.
\<close>

definition skillKeys :: "string list" where
  "skillKeys = [''s1'', ''s2'', ''s3'', ''s4'']"

fun admissible :: "op \<Rightarrow> bool" where
  "admissible (Damage i amount isDoT) = (0 \<le> amount)"
| "admissible (Tick delta i opp) = (0 \<le> delta)"
| "admissible (Snapshot delta i) = (0 \<le> delta)"
| "admissible (PayCost i key) = (key \<in> set skillKeys)"
| "admissible x = True"

text \<open>
  Health and energy within their bounds, for the fighter and for its stored snapshots;
  the costs of its skills are not negative.
\<close>

definition inRange :: "player \<Rightarrow> real \<Rightarrow> real \<Rightarrow> bool" where
  "inRange q h e = (0 \<le> h \<and> h \<le> maxHp q \<and> 0 \<le> e \<and> e \<le> maxEnergy q)"

definition costOk :: "player \<Rightarrow> string \<Rightarrow> bool" where
  "costOk q k = (case skills q k of None \<Rightarrow> True | Some sk \<Rightarrow> 0 \<le> cost sk)"

definition vitalsOk :: "player \<Rightarrow> bool" where
  "vitalsOk q =
     (inRange q (hp q) (energy q)
      \<and> list_all (\<lambda>s. inRange q (fst (snd s)) (snd (snd s))) (rewindPositions q)
      \<and> list_all (costOk q) skillKeys)"

definition allVitalsOk :: "world \<Rightarrow> bool" where
  "allVitalsOk w = list_all vitalsOk (players w)"

section \<open>The special-object loop (main.js, animate)\<close>

datatype 'a run = Finished 'a | OutOfFuel | NotCovered

definition runWorld :: "world run \<Rightarrow> world option" where
  "runWorld r = (case r of Finished w \<Rightarrow> Some w | OutOfFuel \<Rightarrow> None | NotCovered \<Rightarrow> None)"

text \<open>
  Objects are JavaScript references; here an object is found in the live list by its
  identity.  \<open>updObj\<close> writes to the object with a given identity.
\<close>

definition findObj :: "nat \<Rightarrow> world \<Rightarrow> gobj option" where
  "findObj a w = List.find (\<lambda>x. oid x = a) (specialObjects w)"

definition durationOf :: "nat \<Rightarrow> world \<Rightarrow> dur option" where
  "durationOf a w = map_option duration (findObj a w)"

definition updObj :: "nat \<Rightarrow> (gobj \<Rightarrow> gobj) \<Rightarrow> world \<Rightarrow> world" where
  "updObj a f w =
     w\<lparr>specialObjects := map (\<lambda>x. if oid x = a then f x else x) (specialObjects w)\<rparr>"

text \<open>
  The Static Field case of \<open>executeSkill\<close> and \<open>StaticField.update\<close>.  The distance test
  between a fighter and the field is the input \<open>near\<close>.  The \<open>forEach\<close> visits the fighters
  in order and hits every one that is not the owner and is within reach.
\<close>

definition castStaticField :: "nat \<Rightarrow> world \<Rightarrow> world" where
  "castStaticField i w = pushSpecial ''StaticField'' (OwnerPlayer i) (Fin 5) w"

definition fieldHits :: "(nat \<Rightarrow> bool) \<Rightarrow> ownerRef \<Rightarrow> world \<Rightarrow> world" where
  "fieldHits near own w =
     fold (\<lambda>j v. if OwnerPlayer j \<noteq> own \<and> near j then takeDamage j 5 False v else v)
          [0..<length (players w)] w"

definition staticFieldUpdate :: "(nat \<Rightarrow> nat \<Rightarrow> bool) \<Rightarrow> real \<Rightarrow> gobj \<Rightarrow> world \<Rightarrow> world" where
  "staticFieldUpdate near delta ob w =
     (if isDestroyed ob then w
      else if damageTimer ob - delta \<le> 0
      then fieldHits (near (oid ob)) (owner ob)
             (updObj (oid ob) (\<lambda>x. (baseUpdate delta x)\<lparr>damageTimer := 0.5\<rparr>) w)
      else updObj (oid ob) (\<lambda>x. (baseUpdate delta x)\<lparr>damageTimer := damageTimer x - delta\<rparr>) w)"

text \<open>
  \<open>o.update(delta, players, projectiles)\<close> by class, for the classes a Static Field duel
  puts in the list: the auras and status visuals only animate, the damage text and the
  particle systems call the base update.  Other classes are not covered.
\<close>

definition objUpdate :: "(nat \<Rightarrow> nat \<Rightarrow> bool) \<Rightarrow> real \<Rightarrow> gobj \<Rightarrow> world \<Rightarrow> world option" where
  "objUpdate near delta ob w =
     (if className ob = ''StaticField'' then Some (staticFieldUpdate near delta ob w)
      else if className ob \<in> set [''PlayerAura'', ''StatusEffectVisual''] then Some w
      else if className ob \<in> set [''FloatingDamageText'', ''ParticleSystem'']
      then Some (updObj (oid ob) (baseUpdate delta) w)
      else None)"

text \<open>
  \<open>if (o.duration <= 0) o.destroy()\<close> on the object just updated; for the classes above
  \<open>destroy\<close> is the base method after rendering clean-up.
\<close>

definition expire :: "nat \<Rightarrow> world \<Rightarrow> world" where
  "expire a w =
     (case findObj a w of
        None \<Rightarrow> w
      | Some x \<Rightarrow> if durLe0 (duration x) then updObj a baseDestroy w else w)"

text \<open>
  The loop \<open>for (let i = 0; i < specialObjects.length; i++)\<close>.  The length is read again
  at every iteration and the list can grow while the loop runs, so the recursion has
  fuel.
\<close>

fun specialLoop :: "(nat \<Rightarrow> nat \<Rightarrow> bool) \<Rightarrow> real \<Rightarrow> nat \<Rightarrow> nat \<Rightarrow> world \<Rightarrow> world run" where
  "specialLoop near delta 0 i w = OutOfFuel"
| "specialLoop near delta (Suc n) i w =
     (if length (specialObjects w) \<le> i then Finished w
      else if isDestroyed (specialObjects w ! i) then specialLoop near delta n (i + 1) w
      else case objUpdate near delta (specialObjects w ! i) w of
             None \<Rightarrow> NotCovered
           | Some w1 \<Rightarrow> specialLoop near delta n (i + 1) (expire (oid (specialObjects w ! i)) w1))"

text \<open>The filter pass after the loops.\<close>

definition sweep :: "world \<Rightarrow> world" where
  "sweep w =
     w\<lparr>projectiles := filter (\<lambda>p. \<not> pDestroyed p) (projectiles w),
       specialObjects := filter (\<lambda>x. \<not> isDestroyed x) (specialObjects w)\<rparr>"

section \<open>Example matches\<close>

definition duel :: world where
  "duel = startGame ''ECHO_PRIME'' ECHO_PRIME ''GLITCH'' GLITCH None emptyWorld"

definition vortexDuel :: world where
  "vortexDuel = startGame ''ECHO_PRIME'' ECHO_PRIME ''VORTEX'' VORTEX None emptyWorld"

definition imploded :: world where
  "imploded = castImplosion 1 0 vortexDuel"

definition implodedLate :: world where
  "implodedLate = updPlayer 0 (setStatus ''implosionTimer'' (JNum (3 / 64))) imploded"

definition shieldedDuel :: world where
  "shieldedDuel =
     castCorruption 0 (castEnergyShield 1
       (startGame ''GLITCH'' GLITCH ''AEGIS'' AEGIS None emptyWorld))"

definition parryDuel :: world where
  "parryDuel = updPlayer 1 (setStatus ''parry'' (JNum 1.5)) duel"

definition aiDuel :: world where
  "aiDuel = startGame ''GLITCH'' GLITCH ''ECHO_PRIME'' ECHO_PRIME (Some tierPro) emptyWorld"

definition devilDuel :: world where
  "devilDuel = startGame ''GLITCH'' GLITCH ''ECHO_PRIME'' ECHO_PRIME (Some tierDevil) emptyWorld"

text \<open>
  A dodge queued by the reflex layer of the AI fighter (a threat seen, the random check
  passed, east as the escape direction), and the same state after the AI fighter has
  then been killed.
\<close>

definition dodgeQueued :: world where
  "dodgeQueued =
     snd (reflexLayer (1 / 32) 1 True 0.5 (Some \<lparr>vx = 1, vy = 0, vz = 0\<rparr>) devilDuel)"

definition dodgeStale :: world where
  "dodgeStale = takeDamage 1 100 False dodgeQueued"

text \<open>A skill body that raises, to make a call of it visible.\<close>

definition alwaysThrows :: "string \<Rightarrow> nat \<Rightarrow> world \<Rightarrow> outcome" where
  "alwaysThrows key i w = (Some TypeError, w)"






text \<open>
  A match in operations: a hit, a snapshot, System Crash paid and cast, a tick of the
  victim, a lethal DoT tick, another hit, Rewind, a DoT tick, Salvation and a second cost.
\<close>

definition matchOps :: "op list" where
  "matchOps =
     [Damage 1 30 False, Snapshot (1 / 2) 1, PayCost 1 ''s4'', SystemCrash 1,
      Tick (1 / 32) 0 (Some 1), Damage 0 500 True, Damage 1 45 False, Rewind 1,
      Damage 1 10 True, Salvation 1, PayCost 1 ''s2'']"

text \<open>
  ECHO PRIME has cast Static Field next to GLITCH; in \<open>fieldDuel\<close> GLITCH is down to 5
  health, so that the first tick of the field is lethal.  Both fighters are within reach
  of the field.
\<close>

definition healthyFieldDuel :: world where
  "healthyFieldDuel = castStaticField 0 duel"

definition fieldDuel :: world where
  "fieldDuel = castStaticField 0 (updPlayer 1 (\<lambda>q. q\<lparr>hp := 5\<rparr>) duel)"

definition inReach :: "nat \<Rightarrow> nat \<Rightarrow> bool" where
  "inReach a j = True"

definition fieldTick :: "world \<Rightarrow> world option" where
  "fieldTick w = runWorld (specialLoop inReach (1 / 32) 20 0 w)"

text \<open>What the game state and the outcome consist of.\<close>

definition gameView :: "world \<Rightarrow> string \<times> bool \<times> nat option \<times> nat" where
  "gameView w = (gameStateName w, gameEnded w, winner w, length (players w))"

definition allHit :: geom where
  "allHit = \<lparr>hitsPlayer = (\<lambda>pr p. True), hitsObstacle = (\<lambda>pr. False),
             hitsObject = (\<lambda>pr ob. False)\<rparr>"

section \<open>Unfolding rules for concrete evaluation\<close>

lemmas world_evals = startGame_def emptyWorld_def constructPlayer_def pushSpecial_def
  updPlayer_def steps_def playSound_def

lemmas data_evals = newPlayer_def ECHO_PRIME_def GLITCH_def AEGIS_def VORTEX_def COLOSSUS_def
  mkSkill_def initStatus_def initCooldowns_def setStatus_def gt0_def le0_def numIs_def

lemmas damage_evals = takeDamage_def hitEffects_def flash_def die_def removeAura_def
  spliceAura_def findOpponent_def rootAttacker_def loseHealth_def scaledDamage_def dieIfDown_def

lemmas skill_evals = useSkill_def invalidInvocation_def onCooldown_def offCooldown_def
  skillFor_def pushSkillEvent_def

lemmas ai_evals = setAiState_def reflexLayer_def dodgeAction_def fireTimer_def
  runTacticalBrain_def executeMovement_def chooseMove_def tierPro_def tierNoob_def tierDevil_def


lemmas tick_evals = decayPass_def decayStatus_def decayCooldowns_def
  resetGravityMarks_def venomTick_def feedbackTick_def implosionTick_def implode_def
  pullToCaster_def

lemmas cast_evals = castImplosion_def addGravityMark_def imploded_def implodedLate_def
  vortexDuel_def

lemmas full_tick_evals = updateStatusRegen_def regenTick_def regenerate_def energyRegen_def
  updatePassive_def passiveTimers_def tickTimer_def imperialWill_def passiveSwitch_def
  fortressPassive_def eventHorizonPassive_def pullOpponent_def updateDamageFlash_def

lemmas op_evals = payCost_def resonanceGain_def manaBurn_def overcharge_def systemCrash_def
  salvation_def energyVoid_def rewind_def recordRewind_def applyOps_def matchOps_def
  skillKeys_def

lemmas vitals_evals = allVitalsOk_def vitalsOk_def inRange_def costOk_def

lemmas loop_evals = findObj_def durationOf_def updObj_def castStaticField_def fieldHits_def
  staticFieldUpdate_def objUpdate_def expire_def sweep_def fieldDuel_def healthyFieldDuel_def
  inReach_def fieldTick_def runWorld_def baseUpdate_def baseDestroy_def

section \<open>Damage application refines the specification's rules\<close>

lemma players_updPlayer [simp]: "players (updPlayer i f w) = (players w)[i := f (players w ! i)]"
  by (simp add: updPlayer_def)

lemma players_pushSpecial [simp]: "players (pushSpecial c ow d w) = players w"
  by (simp add: pushSpecial_def)

lemma players_playSound [simp]: "players (playSound c w) = players w"
  by (simp add: playSound_def)

lemma players_spliceAura [simp]: "players (spliceAura a w) = players w"
  by (simp add: spliceAura_def)

lemma gameStateName_updPlayer [simp]: "gameStateName (updPlayer i f w) = gameStateName w"
  by (simp add: updPlayer_def)

lemma map_update_same:
  "f y = f (xs ! i) \<Longrightarrow> map f (xs[i := y]) = map f xs"
  by (induction xs arbitrary: i) (auto split: nat.splits)

lemma nth_update_field:
  "(\<And>q. h (f q) = h q) \<Longrightarrow> h ((xs[i := f (xs ! i)]) ! j) = h (xs ! j)"
  by (cases "i < length xs"; cases "i = j") (simp_all add: list_update_beyond)

lemma combatView_updPlayer:
  "combatView (updPlayer i f w) =
   (combatView w)[i := (hp (f (players w ! i)), status (f (players w ! i)), firewallTimer (f (players w ! i)))]"
  by (simp add: combatView_def map_update)

lemma combatView_updPlayer_same:
  assumes "hp (f (players w ! i)) = hp (players w ! i)"
    and "status (f (players w ! i)) = status (players w ! i)"
    and "firewallTimer (f (players w ! i)) = firewallTimer (players w ! i)"
  shows "combatView (updPlayer i f w) = combatView w"
  unfolding combatView_def players_updPlayer
  by (rule map_update_same) (simp add: assms)

lemma combatView_pushSpecial [simp]: "combatView (pushSpecial c ow d w) = combatView w"
  by (simp add: combatView_def)

lemma combatView_playSound [simp]: "combatView (playSound c w) = combatView w"
  by (simp add: combatView_def)

lemma combatView_spliceAura [simp]: "combatView (spliceAura a w) = combatView w"
  by (simp add: combatView_def)

lemma players_hitEffects: "players (hitEffects i w) = (players w)[i := flash (players w ! i)]"
  by (simp add: hitEffects_def steps_def)

lemma combatView_hitEffects [simp]: "combatView (hitEffects i w) = combatView w"
  unfolding combatView_def players_hitEffects
  by (rule map_update_same) (simp add: flash_def)

lemma hp_hitEffects [simp]: "hp (players (hitEffects i w) ! i) = hp (players w ! i)"
  unfolding players_hitEffects by (rule nth_update_field) (simp add: flash_def)

lemma combatView_removeAura [simp]: "combatView (removeAura i w) = combatView w"
proof (cases "aura (players w ! i)")
  case None
  then show ?thesis by (simp add: removeAura_def)
next
  case (Some a)
  have "combatView (updPlayer i (\<lambda>q. q\<lparr>aura := None\<rparr>) (spliceAura a w)) = combatView (spliceAura a w)"
    by (rule combatView_updPlayer_same) simp_all
  with Some show ?thesis by (simp add: removeAura_def)
qed

lemma combatView_die:
  assumes "hp (players w ! i) = 0"
  shows "combatView (die i w) = combatView w"
proof (cases "isDead (players w ! i) \<or> gameStateName w = ''GAME_OVER''")
  case True
  then show ?thesis by (auto simp: die_def)
next
  case False
  have "combatView (updPlayer i (\<lambda>q. q\<lparr>isDead := True, hp := 0, damageFlashTimer := 0,
                                     originalEmissives := False, meshVisible := False\<rparr>) w) = combatView w"
    by (rule combatView_updPlayer_same) (simp_all add: assms)
  with False show ?thesis by (simp add: die_def steps_def)
qed

lemma damage_branch:
  assumes "i < length (players w)"
  shows "combatView (steps [updPlayer i (loseHealth amount),
                            (if isDoT then (\<lambda>w. w) else hitEffects i), dieIfDown i] w)
   = combatView (updPlayer i (loseHealth amount) w)"
proof -
  define w1 where "w1 = updPlayer i (loseHealth amount) w"
  define w2 where "w2 = (if isDoT then w1 else hitEffects i w1)"
  have cv: "combatView w2 = combatView w1" by (simp add: w2_def)
  have "hp (players w1 ! i) = max 0 (hp (players w ! i) - scaledDamage amount (players w ! i))"
    using assms by (simp add: w1_def loseHealth_def)
  then have hp2: "0 \<le> hp (players w2 ! i)" by (simp add: w2_def)
  have "combatView (dieIfDown i w2) = combatView w2"
  proof (cases "hp (players w2 ! i) \<le> 0")
    case True
    with hp2 have z: "hp (players w2 ! i) = 0" by linarith
    from True combatView_die [OF z] show ?thesis by (simp add: dieIfDown_def)
  next
    case False
    then show ?thesis by (simp add: dieIfDown_def)
  qed
  moreover have "steps [updPlayer i (loseHealth amount),
                            (if isDoT then (\<lambda>w. w) else hitEffects i), dieIfDown i] w = dieIfDown i w2"
    by (simp add: steps_def w1_def w2_def)
  ultimately show ?thesis using cv by (simp add: w1_def)
qed

lemma scaledDamage_steps: "scaledDamage amount q = empowermentStep q (corruptionStep q amount)"
  by (simp add: scaledDamage_def empowermentStep_def corruptionStep_def)

lemma spec_cases:
  "applyDamage_spec i amount isDoT w =
     (if isDead (players w ! i) then w
      else if \<not> isDoT \<and> gt0 (status (players w ! i) ''shielded'') then w
      else if \<not> isDoT \<and> passiveName (players w ! i) = ''Firewall''
                \<and> firewallTimer (players w ! i) \<le> 0 then
          (updPlayer i (\<lambda>q. q\<lparr>firewallTimer := 20\<rparr>) w)
      else if \<not> isDoT \<and> gt0 (status (players w ! i) ''spellShield'') then
        updPlayer i (setStatus ''spellShield'' (JNum 0)) w
      else if \<not> isDoT \<and> gt0 (status (players w ! i) ''parry'') then
        rootAttacker i (updPlayer i (setStatus ''parry'' (JNum 0)) w)
      else updPlayer i (loseHealth amount) w)"
proof -
  have "(\<lambda>q. q\<lparr>hp := max 0 (hp q - empowermentStep q (corruptionStep q amount))\<rparr>)
          = loseHealth amount"
    by (rule ext) (simp add: loseHealth_def scaledDamage_steps)
  then show ?thesis
    by (simp add: applyDamage_spec_def deadLayer_def shieldLayer_def
          blockPassiveLayer_def spellShieldLayer_def parryLayer_def)
qed

lemma takeDamage_dead:
  "isDead (players w ! i) \<Longrightarrow> takeDamage i amount isDoT w = w"
  by (simp add: takeDamage_def)

lemma takeDamage_shielded:
  "\<not> isDead (players w ! i) \<Longrightarrow> gt0 (status (players w ! i) ''shielded'') \<Longrightarrow>
   takeDamage i amount False w = w"
  by (simp add: takeDamage_def)

lemma takeDamage_firewall:
  "\<not> isDead (players w ! i) \<Longrightarrow> \<not> gt0 (status (players w ! i) ''shielded'') \<Longrightarrow>
   passiveName (players w ! i) = ''Firewall'' \<Longrightarrow> firewallTimer (players w ! i) \<le> 0 \<Longrightarrow>
   takeDamage i amount False w =
     pushSpecial ''ShieldEffect'' (OwnerPlayer i) (Fin 1)
       (updPlayer i (\<lambda>q. q\<lparr>firewallTimer := 20\<rparr>) w)"
  by (simp add: takeDamage_def)

lemma takeDamage_spellShield:
  "\<not> isDead (players w ! i) \<Longrightarrow> \<not> gt0 (status (players w ! i) ''shielded'') \<Longrightarrow>
   \<not> (passiveName (players w ! i) = ''Firewall'' \<and> firewallTimer (players w ! i) \<le> 0) \<Longrightarrow>
   gt0 (status (players w ! i) ''spellShield'') \<Longrightarrow>
   takeDamage i amount False w = updPlayer i (setStatus ''spellShield'' (JNum 0)) w"
  by (auto simp: takeDamage_def)

lemma takeDamage_parry:
  "\<not> isDead (players w ! i) \<Longrightarrow> \<not> gt0 (status (players w ! i) ''shielded'') \<Longrightarrow>
   \<not> (passiveName (players w ! i) = ''Firewall'' \<and> firewallTimer (players w ! i) \<le> 0) \<Longrightarrow>
   \<not> gt0 (status (players w ! i) ''spellShield'') \<Longrightarrow>
   gt0 (status (players w ! i) ''parry'') \<Longrightarrow>
   takeDamage i amount False w = rootAttacker i (updPlayer i (setStatus ''parry'' (JNum 0)) w)"
  by (auto simp: takeDamage_def)

lemma not_blocked_iff:
  "\<not> blocked i w \<longleftrightarrow>
     \<not> gt0 (status (players w ! i) ''shielded'')
      \<and> \<not> (passiveName (players w ! i) = ''Firewall'' \<and> firewallTimer (players w ! i) \<le> 0)
      \<and> \<not> gt0 (status (players w ! i) ''spellShield'')
      \<and> \<not> gt0 (status (players w ! i) ''parry'')"
  by (auto simp: blocked_def Let_def)

lemma takeDamage_damage:
  assumes "\<not> isDead (players w ! i)"
    and "isDoT \<or> \<not> blocked i w"
  shows "takeDamage i amount isDoT w =
     steps [updPlayer i (loseHealth amount),
            (if isDoT then (\<lambda>w. w) else hitEffects i), dieIfDown i] w"
  using assms unfolding not_blocked_iff takeDamage_def by (cases isDoT) auto

lemma spec_damage:
  assumes "\<not> isDead (players w ! i)"
    and "isDoT \<or> \<not> blocked i w"
  shows "applyDamage_spec i amount isDoT w = updPlayer i (loseHealth amount) w"
  using assms unfolding not_blocked_iff spec_cases by (cases isDoT) auto

text \<open>
  C1.  On every fighter, \<open>takeDamage\<close> leaves health, the status table and the cooldown of
  the blocking passive exactly as the specification's layered rules do: a dead target is
  untouched; for a hit that is not damage over time the checks run in the order shielded
  status, blocking passive (cooldown reset), spell shield (consumed), parry (consumed, the
  other fighter rooted) and the first that applies blocks everything; damage over time
  skips the four blocks; what proceeds is multiplied by 1.3 under corruption and then by
  0.7 under empowerment and is subtracted from health, floored at zero.
\<close>

theorem takeDamage_refines_spec:
  assumes "i < length (players w)"
  shows "combatView (takeDamage i amount isDoT w) = combatView (applyDamage_spec i amount isDoT w)"
proof -
  let ?p = "players w ! i"
  consider (dead) "isDead ?p"
    | (shield) "\<not> isDead ?p" "\<not> isDoT" "gt0 (status ?p ''shielded'')"
    | (firewall) "\<not> isDead ?p" "\<not> isDoT" "\<not> gt0 (status ?p ''shielded'')"
        "passiveName ?p = ''Firewall''" "firewallTimer ?p \<le> 0"
    | (spell) "\<not> isDead ?p" "\<not> isDoT" "\<not> gt0 (status ?p ''shielded'')"
        "\<not> (passiveName ?p = ''Firewall'' \<and> firewallTimer ?p \<le> 0)"
        "gt0 (status ?p ''spellShield'')"
    | (parry) "\<not> isDead ?p" "\<not> isDoT" "\<not> gt0 (status ?p ''shielded'')"
        "\<not> (passiveName ?p = ''Firewall'' \<and> firewallTimer ?p \<le> 0)"
        "\<not> gt0 (status ?p ''spellShield'')" "gt0 (status ?p ''parry'')"
    | (damage) "\<not> isDead ?p" "isDoT \<or> \<not> blocked i w"
    unfolding not_blocked_iff by blast
  then show ?thesis
  proof cases
    case dead
    then show ?thesis by (simp add: takeDamage_dead spec_cases)
  next
    case shield
    then show ?thesis by (simp add: takeDamage_shielded spec_cases)
  next
    case firewall
    then show ?thesis by (simp add: takeDamage_firewall spec_cases)
  next
    case spell
    then show ?thesis by (auto simp: takeDamage_spellShield spec_cases)
  next
    case parry
    then show ?thesis by (auto simp: takeDamage_parry spec_cases)
  next
    case damage
    show ?thesis
      unfolding spec_damage [OF damage] takeDamage_damage [OF damage]
      by (rule damage_branch [OF assms])
  qed
qed

theorem takeDamage_refines_spec_witness:
  "combatView (takeDamage 1 25 False parryDuel) = combatView (applyDamage_spec 1 25 False parryDuel)
   \<and> status (players (takeDamage 1 25 False parryDuel) ! 1) ''parry'' = Some (JNum 0)
   \<and> status (players (takeDamage 1 25 False parryDuel) ! 0) ''rooted'' = Some (JNum 1.5)
   \<and> hp (players (takeDamage 1 25 False parryDuel) ! 1) = 100
   \<and> hp (players (takeDamage 1 25 True parryDuel) ! 1) = 75"
proof -
  have len: "1 < length (players parryDuel)"
    by (simp add: parryDuel_def duel_def world_evals)
  have "status (players (takeDamage 1 25 False parryDuel) ! 1) ''parry'' = Some (JNum 0)"
    and "status (players (takeDamage 1 25 False parryDuel) ! 0) ''rooted'' = Some (JNum 1.5)"
    and "hp (players (takeDamage 1 25 False parryDuel) ! 1) = 100"
    and "hp (players (takeDamage 1 25 True parryDuel) ! 1) = 75"
    by (simp_all add: parryDuel_def duel_def world_evals data_evals damage_evals)
  with takeDamage_refines_spec [OF len, of 25 False] show ?thesis by simp
qed

section \<open>Projectile effects and blocked damage\<close>

lemma projectiles_updPlayer [simp]: "projectiles (updPlayer i f w) = projectiles w"
  by (simp add: updPlayer_def)

lemma projectiles_pushSpecial [simp]: "projectiles (pushSpecial c ow d w) = projectiles w"
  by (simp add: pushSpecial_def)

lemma projectiles_rootAttacker [simp]: "projectiles (rootAttacker i w) = projectiles w"
  by (simp add: rootAttacker_def split: option.splits)

lemma players_setProj [simp]: "players (setProj k pr w) = players w"
  by (simp add: setProj_def)

lemma players_destroyProjectile [simp]: "players (destroyProjectile k w) = players w"
  by (simp add: destroyProjectile_def Let_def)

lemma players_afterHit [simp]: "players (fst (afterHit k j w)) = players w"
  by (simp add: afterHit_def)

lemma findOpponent_neq: "findOpponent i w = Some j \<Longrightarrow> j \<noteq> i"
  unfolding findOpponent_def by (auto simp: find_Some_iff)

lemma players_rootAttacker_self:
  "i < length (players w) \<Longrightarrow> players (rootAttacker i w) ! i = players w ! i"
  by (auto simp: rootAttacker_def split: option.splits dest: findOpponent_neq)

lemma hp_setStatus [simp]: "hp (setStatus k v q) = hp q"
  by (simp add: setStatus_def)

lemma hp_rootAttacker [simp]: "hp (players (rootAttacker i w) ! j) = hp (players w ! j)"
  by (simp add: rootAttacker_def nth_update_field split: option.splits)

lemma length_rootAttacker [simp]: "length (players (rootAttacker i w)) = length (players w)"
  by (simp add: rootAttacker_def split: option.splits)

text \<open>What a fully blocked hit leaves behind.\<close>

definition blockedResult :: "nat \<Rightarrow> world \<Rightarrow> world" where
  "blockedResult j w =
     (if gt0 (status (players w ! j) ''shielded'') then w
      else if passiveName (players w ! j) = ''Firewall'' \<and> firewallTimer (players w ! j) \<le> 0
      then pushSpecial ''ShieldEffect'' (OwnerPlayer j) (Fin 1)
             (updPlayer j (\<lambda>q. q\<lparr>firewallTimer := 20\<rparr>) w)
      else if gt0 (status (players w ! j) ''spellShield'')
      then updPlayer j (setStatus ''spellShield'' (JNum 0)) w
      else rootAttacker j (updPlayer j (setStatus ''parry'' (JNum 0)) w))"

lemma takeDamage_blocked:
  assumes "\<not> isDead (players w ! j)" and "blocked j w"
  shows "takeDamage j amount False w = blockedResult j w"
  using assms unfolding blocked_def Let_def blockedResult_def
  by (auto simp: takeDamage_shielded takeDamage_firewall takeDamage_spellShield takeDamage_parry)

lemma blockedResult_frame:
  assumes "j < length (players w)"
  shows "hp (players (blockedResult j w) ! j) = hp (players w ! j)"
    and "projectiles (blockedResult j w) = projectiles w"
    and "length (players (blockedResult j w)) = length (players w)"
  using assms by (simp_all add: blockedResult_def nth_update_field)

text \<open>
  C10.  When a projectile that carries on-hit effects collides with a live fighter other
  than its owner, and a defensive layer (shielded status, blocking passive, spell shield
  or parry) fully blocks the damage, the fighter's health is unchanged and its status
  table is the one the damage call left with every numeric effect added to it.
\<close>

theorem effects_applied_when_blocked:
  assumes "j < length (players w)"
    and "canHit g k j w"
    and "blocked j w"
    and "effects (projectiles w ! k) = Some es"
  shows "status (players (fst (collidePlayer g k j w)) ! j)
           = applyEffects es (status (players (takeDamage j (pdamage (projectiles w ! k)) False w) ! j))
       \<and> hp (players (fst (collidePlayer g k j w)) ! j) = hp (players w ! j)"
proof -
  from assms(2) have alive: "\<not> isDead (players w ! j)" by (simp add: canHit_def)
  have td: "takeDamage j (pdamage (projectiles w ! k)) False w = blockedResult j w"
    by (rule takeDamage_blocked [OF alive assms(3)])
  have len: "j < length (players (blockedResult j w))"
    using blockedResult_frame(3) [OF assms(1)] assms(1) by simp
  have "players (fst (collidePlayer g k j w)) = players (addEffects k j (blockedResult j w))"
    using assms(2) by (simp add: collidePlayer_def hitPlayer_def td)
  also have "\<dots> = (players (blockedResult j w))
        [j := (players (blockedResult j w) ! j)
           \<lparr>status := applyEffects es (status (players (blockedResult j w) ! j))\<rparr>]"
    using assms(4) blockedResult_frame(2) [OF assms(1)] by (simp add: addEffects_def)
  finally show ?thesis
    using len blockedResult_frame(1) [OF assms(1)] by (simp add: td)
qed

theorem effects_applied_when_blocked_witness:
  "status (players (fst (collidePlayer allHit 0 1 shieldedDuel)) ! 1) ''corruption'' = Some (JNum 5)
   \<and> hp (players (fst (collidePlayer allHit 0 1 shieldedDuel)) ! 1) = 140"
proof -
  have len: "1 < length (players shieldedDuel)"
    and hit: "canHit allHit 0 1 shieldedDuel"
    and blk: "blocked 1 shieldedDuel"
    and eff: "effects (projectiles shieldedDuel ! 0) = Some [(''corruption'', JNum 5)]"
    and st: "status (players (takeDamage 1 (pdamage (projectiles shieldedDuel ! 0)) False shieldedDuel) ! 1) ''corruption'' = Some (JNum 0)"
    and h: "hp (players shieldedDuel ! 1) = 140"
    by (simp_all add: shieldedDuel_def castCorruption_def castEnergyShield_def fireProjectile_def
        canHit_def blocked_def allHit_def projOwnerPlayer_def world_evals data_evals damage_evals)
  from effects_applied_when_blocked [OF len hit blk eff] st h show ?thesis by simp
qed


section \<open>Invalid skill invocations\<close>




section \<open>A delayed dodge after the fighter's death\<close>

text \<open>
  C9.  When the delayed dodge callback of fighter \<open>i\<close> fires and the fighter is dead by
  then, the callback only leaves the timer queue: the state is otherwise the state before
  it fired, so neither the velocity nor the aim of the fighter changes, and no skill is
  invoked, whatever the skill body would do.
\<close>

theorem dead_fighter_dodge_is_noop:
  assumes "timers w = (d, i, path) # rest"
    and "isDead (players w ! i)"
  shows "fireTimer exec w = (None, w\<lparr>timers := rest\<rparr>)"
  using assms by (simp add: fireTimer_def dodgeAction_def)

theorem dead_fighter_dodge_is_noop_witness:
  "timers dodgeQueued = [(0, 1, \<lparr>vx = 1, vy = 0, vz = 0\<rparr>)]
   \<and> fst (fireTimer alwaysThrows dodgeQueued) = Some TypeError
   \<and> fireTimer alwaysThrows dodgeStale = (None, dodgeStale\<lparr>timers := []\<rparr>)"
proof -
  have q: "timers dodgeQueued = [(0, 1, \<lparr>vx = 1, vy = 0, vz = 0\<rparr>)]"
    by (simp add: dodgeQueued_def devilDuel_def ai_evals world_evals data_evals)
  have live: "fst (fireTimer alwaysThrows dodgeQueued) = Some TypeError"
    by (simp add: dodgeQueued_def devilDuel_def alwaysThrows_def ai_evals skill_evals
        world_evals data_evals)
  have t: "timers dodgeStale = (0, 1, \<lparr>vx = 1, vy = 0, vz = 0\<rparr>) # []"
    by (simp add: dodgeStale_def dodgeQueued_def devilDuel_def ai_evals world_evals data_evals
        damage_evals)
  have dead: "isDead (players dodgeStale ! 1)"
    by (simp add: dodgeStale_def dodgeQueued_def devilDuel_def ai_evals world_evals data_evals
        damage_evals)
  from dead_fighter_dodge_is_noop [OF t dead, of alwaysThrows] q live show ?thesis by simp
qed


section \<open>The tactical layer with the line of sight blocked\<close>

lemma blocked_sight_throws:
  assumes "aiSt (players w ! i) = Some st" and "repositionTarget st = None"
  shows "fst (runTacticalBrain offense i j True w) = Some TypeError"
  using assms by (simp add: runTacticalBrain_def)

text \<open>
  C3.  In a match as \<open>startGame\<close> sets it up, with the AI fighter's line of sight blocked,
  \<open>runTacticalBrain\<close> does not return: it sets the strategy to \<open>REPOSITION\<close> and then raises
  a \<open>TypeError\<close> on the reposition target, which the constructor never creates.  No
  offensive skill is called, but no flank point is stored either, and \<open>executeMovement\<close>,
  run on the state this leaves, raises again instead of moving the fighter.
\<close>

theorem blocked_sight_raises_TypeError:
  "fst (runTacticalBrain offense 1 0 True aiDuel) = Some TypeError
   \<and> map_option strategy (aiSt (players (snd (runTacticalBrain offense 1 0 True aiDuel)) ! 1))
        = Some ''REPOSITION''
   \<and> map_option repositionTarget (aiSt (players (snd (runTacticalBrain offense 1 0 True aiDuel)) ! 1))
        = Some None
   \<and> fst (executeMovement coin 1 0 (snd (runTacticalBrain offense 1 0 True aiDuel)))
        = Some TypeError"
  by (simp add: aiDuel_def ai_evals world_evals data_evals)


section \<open>Simultaneous deaths\<close>

lemma gameView_updPlayer [simp]: "gameView (updPlayer i f w) = gameView w"
  by (simp add: gameView_def updPlayer_def)

lemma gameView_pushSpecial [simp]: "gameView (pushSpecial c ow d w) = gameView w"
  by (simp add: gameView_def pushSpecial_def)

lemma gameView_playSound [simp]: "gameView (playSound c w) = gameView w"
  by (simp add: gameView_def playSound_def)

lemma gameView_spliceAura [simp]: "gameView (spliceAura a w) = gameView w"
  by (simp add: gameView_def spliceAura_def)

lemma gameView_removeAura [simp]: "gameView (removeAura i w) = gameView w"
  by (simp add: removeAura_def split: option.splits)

lemma gameView_die [simp]: "gameView (die i w) = gameView w"
  by (simp add: die_def steps_def)

lemma gameView_hitEffects [simp]: "gameView (hitEffects i w) = gameView w"
  by (simp add: hitEffects_def steps_def)

lemma gameView_rootAttacker [simp]: "gameView (rootAttacker i w) = gameView w"
  by (simp add: rootAttacker_def split: option.splits)

lemma gameView_takeDamage [simp]: "gameView (takeDamage i amount isDoT w) = gameView w"
  by (simp add: takeDamage_def steps_def dieIfDown_def)

lemma gameView_damageEvents [simp]: "gameView (damageEvents evs w) = gameView w"
  by (induction evs arbitrary: w) auto

lemma players_removeAura:
  "players (removeAura i w) = players w \<or>
   players (removeAura i w) = (players w)[i := (players w ! i)\<lparr>aura := None\<rparr>]"
  by (simp add: removeAura_def split: option.splits)

lemma isDead_removeAura [simp]:
  "isDead (players (removeAura i w) ! j) = isDead (players w ! j)"
  by (cases "j < length (players w)"; cases "j = i")
     (auto simp: removeAura_def list_update_beyond split: option.splits)











section \<open>The status table after a tick\<close>

lemma updateStatusRegen_split:
  "\<not> isDead (players w ! i) \<Longrightarrow>
   updateStatusRegen delta i opp w =
   updPlayer i (updateDamageFlash delta)
     (updatePassive delta i opp (regenTick delta i (afterImplosion delta i opp w)))"
  by (simp add: updateStatusRegen_def steps_def afterImplosion_def)

lemma status_updateDamageFlash [simp]: "status (updateDamageFlash delta q) = status q"
  by (simp add: updateDamageFlash_def)

lemma status_regenerate [simp]: "status (regenerate delta r q) = status q"
  by (simp add: regenerate_def)

lemma status_passiveTimers [simp]: "status (passiveTimers delta q) = status q"
  by (simp add: passiveTimers_def)

lemma status_imperialWill [simp]: "status (imperialWill q) = status q"
  by (simp add: imperialWill_def)

lemma status_updPlayer_same:
  "(\<And>q. status (f q) = status q) \<Longrightarrow>
   status (players (updPlayer i f w) ! j) = status (players w ! j)"
  unfolding players_updPlayer by (rule nth_update_field)

lemma status_pushSpecial [simp]:
  "status (players (pushSpecial c ow d w) ! j) = status (players w ! j)"
  by simp

lemma status_fortressPassive:
  "status (players (fortressPassive delta i w) ! j) = status (players w ! j)"
  by (simp add: fortressPassive_def status_updPlayer_same del: players_updPlayer)

lemma status_setStatus_other: "k' \<noteq> k \<Longrightarrow> status (setStatus k v q) k' = status q k'"
  by (simp add: setStatus_def)

lemma status_updPlayer_key:
  "(\<And>q. status (f q) k = status q k) \<Longrightarrow>
   status (players (updPlayer i f w) ! j) k = status (players w ! j) k"
  unfolding players_updPlayer
  by (rule nth_update_field [where h = "\<lambda>q. status q k"])

lemma status_pullOpponent:
  "status (players (pullOpponent i j w) ! n) = status (players w ! n)"
  by (simp add: pullOpponent_def status_updPlayer_same del: players_updPlayer)

lemma status_eventHorizon:
  assumes "k \<noteq> ''gravityMarks''" and "k \<noteq> ''gravityMarkTimer''" and "k \<noteq> ''rooted''"
  shows "status (players (eventHorizonPassive i opp w) ! n) k = status (players w ! n) k"
  using assms
  by (cases opp)
     (simp_all add: eventHorizonPassive_def steps_def status_pullOpponent
        status_updPlayer_key status_setStatus_other del: players_updPlayer)

lemma status_updatePassive:
  assumes "k \<noteq> ''gravityMarks''" and "k \<noteq> ''gravityMarkTimer''" and "k \<noteq> ''rooted''"
  shows "status (players (updatePassive delta i opp w) ! n) k = status (players w ! n) k"
  by (simp add: updatePassive_def steps_def passiveSwitch_def status_fortressPassive
      status_eventHorizon [OF assms] status_updPlayer_same del: players_updPlayer)

lemma status_regenTick:
  "status (players (regenTick delta i w) ! n) = status (players w ! n)"
  by (simp add: regenTick_def status_updPlayer_same del: players_updPlayer)

lemma implosionTimer_after_tick:
  assumes "\<not> isDead (players w ! i)"
  shows "status (players (updateStatusRegen delta i opp w) ! n) ''implosionTimer'' =
         status (players (afterImplosion delta i opp w) ! n) ''implosionTimer''"
  by (simp add: updateStatusRegen_split [OF assms] status_updPlayer_same
      status_updatePassive status_regenTick del: players_updPlayer)

lemma passiveName_updPlayer_same:
  "(\<And>q. passiveName (f q) = passiveName q) \<Longrightarrow>
   passiveName (players (updPlayer i f w) ! j) = passiveName (players w ! j)"
  unfolding players_updPlayer by (rule nth_update_field)

lemma status_updatePassive_plain:
  assumes "passiveName (players w ! i) \<noteq> ''Event Horizon''"
  shows "status (players (updatePassive delta i opp w) ! n) = status (players w ! n)"
proof -
  have "passiveName (players (updPlayer i imperialWill (updPlayer i (passiveTimers delta) w)) ! i)
        = passiveName (players w ! i)"
    by (simp add: passiveName_updPlayer_same imperialWill_def passiveTimers_def
        del: players_updPlayer)
  with assms show ?thesis
    by (simp add: updatePassive_def steps_def passiveSwitch_def status_fortressPassive
        status_updPlayer_same del: players_updPlayer)
qed

lemma status_after_tick:
  assumes "\<not> isDead (players w ! i)"
    and "passiveName (players (regenTick delta i (afterImplosion delta i opp w)) ! i)
         \<noteq> ''Event Horizon''"
  shows "status (players (updateStatusRegen delta i opp w) ! n) =
         status (players (afterImplosion delta i opp w) ! n)"
  by (simp add: updateStatusRegen_split [OF assms(1)] status_updPlayer_same
      status_updatePassive_plain [OF assms(2)] status_regenTick del: players_updPlayer)

text \<open>
  C2.  One tick of 1/32 s on a fighter just hit by Implosion (one gravity mark, mark timer
  at 4 s, implosion timer at 3 s).  The gravity-mark count is itself decayed, from 1 to
  31/32, while its timer is still running; the implosion timer loses the elapsed time
  twice, once in the decay loop and once in the implosion block; and an implosion timer
  at 3/64 s ends the tick at -1/64, below zero.
\<close>

theorem tick_breaks_status_invariant:
  "status (players imploded ! 0) ''gravityMarks'' = Some (JNum 1)
   \<and> status (players imploded ! 0) ''gravityMarkTimer'' = Some (JNum 4)
   \<and> status (players imploded ! 0) ''implosionTimer'' = Some (JNum 3)
   \<and> status (players (updateStatusRegen (1 / 32) 0 (Some 1) imploded) ! 0) ''gravityMarks''
       = Some (JNum (31 / 32))
   \<and> status (players (updateStatusRegen (1 / 32) 0 (Some 1) imploded) ! 0) ''gravityMarkTimer''
       = Some (JNum (127 / 32))
   \<and> status (players (updateStatusRegen (1 / 32) 0 (Some 1) imploded) ! 0) ''implosionTimer''
       = Some (JNum (3 - 2 * (1 / 32)))
   \<and> status (players implodedLate ! 0) ''implosionTimer'' = Some (JNum (3 / 64))
   \<and> status (players (updateStatusRegen (1 / 32) 0 (Some 1) implodedLate) ! 0) ''implosionTimer''
       = Some (JNum (- (1 / 64)))"
proof -
  have before: "status (players imploded ! 0) ''gravityMarks'' = Some (JNum 1)"
    "status (players imploded ! 0) ''gravityMarkTimer'' = Some (JNum 4)"
    "status (players imploded ! 0) ''implosionTimer'' = Some (JNum 3)"
    "status (players implodedLate ! 0) ''implosionTimer'' = Some (JNum (3 / 64))"
    by (simp_all add: cast_evals world_evals data_evals damage_evals)
  have alive: "\<not> isDead (players imploded ! 0)" "\<not> isDead (players implodedLate ! 0)"
    by (simp_all add: cast_evals world_evals data_evals damage_evals)
  have pn: "passiveName (players (regenTick (1 / 32) 0 (afterImplosion (1 / 32) 0 (Some 1) imploded)) ! 0)
            \<noteq> ''Event Horizon''"
    by (simp add: afterImplosion_def regenTick_def regenerate_def energyRegen_def tick_evals
        cast_evals world_evals data_evals damage_evals)
  have marks: "status (players (afterImplosion (1 / 32) 0 (Some 1) imploded) ! 0) ''gravityMarks''
               = Some (JNum (31 / 32))"
    "status (players (afterImplosion (1 / 32) 0 (Some 1) imploded) ! 0) ''gravityMarkTimer''
               = Some (JNum (127 / 32))"
    "status (players (afterImplosion (1 / 32) 0 (Some 1) imploded) ! 0) ''implosionTimer''
               = Some (JNum (47 / 16))"
    by (simp_all add: afterImplosion_def tick_evals cast_evals world_evals data_evals damage_evals)
  have late: "status (players (afterImplosion (1 / 32) 0 (Some 1) implodedLate) ! 0) ''implosionTimer''
               = Some (JNum (- (1 / 64)))"
    by (simp add: afterImplosion_def tick_evals cast_evals world_evals data_evals damage_evals)
  have full: "status (players (updateStatusRegen (1 / 32) 0 (Some 1) imploded) ! 0) =
              status (players (afterImplosion (1 / 32) 0 (Some 1) imploded) ! 0)"
    by (rule status_after_tick [OF alive(1) pn])
  have fullLate:
    "status (players (updateStatusRegen (1 / 32) 0 (Some 1) implodedLate) ! 0) ''implosionTimer'' =
     status (players (afterImplosion (1 / 32) 0 (Some 1) implodedLate) ! 0) ''implosionTimer''"
    by (rule implosionTimer_after_tick [OF alive(2)])
  show ?thesis unfolding full fullLate using before marks late by simp
qed


section \<open>Health and energy stay within their bounds\<close>

lemma vitalsOk_eqI:
  assumes "hp q' = hp q" "maxHp q' = maxHp q" "energy q' = energy q"
    "maxEnergy q' = maxEnergy q" "rewindPositions q' = rewindPositions q" "skills q' = skills q"
  shows "vitalsOk q' = vitalsOk q"
  using assms by (simp add: vitalsOk_def inRange_def costOk_def fun_eq_iff list_all_iff)

lemma allVitalsOk_nth:
  "allVitalsOk w \<Longrightarrow> i < length (players w) \<Longrightarrow> vitalsOk (players w ! i)"
  by (simp add: allVitalsOk_def list_all_length)

lemma allVitalsOk_updPlayer:
  assumes "allVitalsOk w"
    and "i < length (players w) \<Longrightarrow> vitalsOk (f (players w ! i))"
  shows "allVitalsOk (updPlayer i f w)"
proof (cases "i < length (players w)")
  case True
  with assms show ?thesis
    by (auto simp: allVitalsOk_def list_all_length nth_list_update)
next
  case False
  with assms(1) show ?thesis by (simp add: allVitalsOk_def list_update_beyond)
qed

lemma allVitalsOk_updPlayer_same:
  assumes "allVitalsOk w" and "\<And>q. vitalsOk (f q) = vitalsOk q"
  shows "allVitalsOk (updPlayer i f w)"
  using assms by (intro allVitalsOk_updPlayer) (simp_all add: allVitalsOk_nth)

lemma allVitalsOk_pushSpecial [simp]: "allVitalsOk (pushSpecial c ow d w) = allVitalsOk w"
  by (simp add: allVitalsOk_def)

lemma allVitalsOk_playSound [simp]: "allVitalsOk (playSound c w) = allVitalsOk w"
  by (simp add: allVitalsOk_def)

lemma allVitalsOk_spliceAura [simp]: "allVitalsOk (spliceAura a w) = allVitalsOk w"
  by (simp add: allVitalsOk_def)

lemma vitalsOk_setStatus [simp]: "vitalsOk (setStatus k v q) = vitalsOk q"
  by (rule vitalsOk_eqI) (simp_all add: setStatus_def)

lemma vitalsOk_flash [simp]: "vitalsOk (flash q) = vitalsOk q"
  by (rule vitalsOk_eqI) (simp_all add: flash_def)

lemma vitalsOk_aura [simp]: "vitalsOk (q\<lparr>aura := a\<rparr>) = vitalsOk q"
  by (rule vitalsOk_eqI) simp_all

lemma allVitalsOk_removeAura:
  "allVitalsOk w \<Longrightarrow> allVitalsOk (removeAura i w)"
  by (simp add: removeAura_def allVitalsOk_updPlayer_same split: option.splits
      del: players_updPlayer)

lemma vitalsOk_dead:
  "vitalsOk q \<Longrightarrow>
   vitalsOk (q\<lparr>isDead := True, hp := 0, damageFlashTimer := 0,
               originalEmissives := False, meshVisible := False\<rparr>)"
  by (simp add: vitalsOk_def inRange_def costOk_def list_all_iff)

lemma allVitalsOk_die: "allVitalsOk w \<Longrightarrow> allVitalsOk (die i w)"
  by (simp add: die_def steps_def allVitalsOk_removeAura allVitalsOk_updPlayer
      allVitalsOk_nth vitalsOk_dead del: players_updPlayer)


lemma allVitalsOk_hitEffects: "allVitalsOk w \<Longrightarrow> allVitalsOk (hitEffects i w)"
  by (simp add: hitEffects_def steps_def allVitalsOk_updPlayer_same del: players_updPlayer)

lemma allVitalsOk_rootAttacker: "allVitalsOk w \<Longrightarrow> allVitalsOk (rootAttacker i w)"
  by (simp add: rootAttacker_def allVitalsOk_updPlayer_same split: option.splits
      del: players_updPlayer)

lemma scaledDamage_nonneg: "0 \<le> amount \<Longrightarrow> 0 \<le> scaledDamage amount q"
  by (simp add: scaledDamage_def)

lemma vitalsOk_loseHealth:
  "0 \<le> amount \<Longrightarrow> vitalsOk q \<Longrightarrow> vitalsOk (loseHealth amount q)"
  using scaledDamage_nonneg [of amount q]
  by (simp add: vitalsOk_def inRange_def costOk_def loseHealth_def list_all_iff)

lemma allVitalsOk_loseHealth:
  "0 \<le> amount \<Longrightarrow> allVitalsOk w \<Longrightarrow> allVitalsOk (updPlayer i (loseHealth amount) w)"
  by (rule allVitalsOk_updPlayer) (simp_all add: allVitalsOk_nth vitalsOk_loseHealth)

lemma vitalsOk_firewallTimer [simp]: "vitalsOk (q\<lparr>firewallTimer := a\<rparr>) = vitalsOk q"
  by (rule vitalsOk_eqI) simp_all

lemma allVitalsOk_dieIfDown: "allVitalsOk w \<Longrightarrow> allVitalsOk (dieIfDown i w)"
  by (simp add: dieIfDown_def allVitalsOk_die)

lemma allVitalsOk_takeDamage:
  assumes "0 \<le> amount" and "allVitalsOk w"
  shows "allVitalsOk (takeDamage i amount isDoT w)"
  using assms
  by (simp add: takeDamage_def steps_def allVitalsOk_dieIfDown allVitalsOk_hitEffects
      allVitalsOk_rootAttacker allVitalsOk_updPlayer_same allVitalsOk_loseHealth
      del: players_updPlayer)


lemma vitalsOk_decayPass [simp]: "vitalsOk (decayPass delta q) = vitalsOk q"
  by (rule vitalsOk_eqI) (simp_all add: decayPass_def)

lemma vitalsOk_resetGravityMarks [simp]: "vitalsOk (resetGravityMarks q) = vitalsOk q"
  by (simp add: resetGravityMarks_def)

lemma allVitalsOk_venomTick:
  "0 \<le> delta \<Longrightarrow> allVitalsOk w \<Longrightarrow> allVitalsOk (venomTick delta i w)"
  by (simp add: venomTick_def allVitalsOk_takeDamage)

lemma allVitalsOk_feedbackTick:
  "0 \<le> delta \<Longrightarrow> allVitalsOk w \<Longrightarrow> allVitalsOk (feedbackTick delta i opp w)"
  by (simp add: feedbackTick_def allVitalsOk_takeDamage split: option.splits)

lemma vitalsOk_velocity [simp]: "vitalsOk (q\<lparr>velocity := a\<rparr>) = vitalsOk q"
  by (rule vitalsOk_eqI) simp_all

lemma vitalsOk_implosionTarget [simp]: "vitalsOk (q\<lparr>implosionTarget := a\<rparr>) = vitalsOk q"
  by (rule vitalsOk_eqI) simp_all

lemma allVitalsOk_pullToCaster: "allVitalsOk w \<Longrightarrow> allVitalsOk (pullToCaster i c w)"
  by (simp add: pullToCaster_def allVitalsOk_updPlayer_same del: players_updPlayer)

lemma allVitalsOk_implode: "allVitalsOk w \<Longrightarrow> allVitalsOk (implode i w)"
  by (simp add: implode_def steps_def allVitalsOk_updPlayer_same allVitalsOk_pullToCaster
      allVitalsOk_takeDamage split: option.splits del: players_updPlayer)

lemma allVitalsOk_implosionTick:
  "allVitalsOk w \<Longrightarrow> allVitalsOk (implosionTick delta i w)"
  by (simp add: implosionTick_def allVitalsOk_implode allVitalsOk_updPlayer_same
      del: players_updPlayer)

lemma energyRegen_nonneg: "0 \<le> energyRegen rift q"
  by (simp add: energyRegen_def)

lemma vitalsOk_regenerate:
  assumes "0 \<le> delta" and "vitalsOk q"
  shows "vitalsOk (regenerate delta rift q)"
proof -
  have "0 \<le> energyRegen rift q * delta"
    using assms(1) energyRegen_nonneg [of rift q] by simp
  with assms(2) show ?thesis
    by (simp add: vitalsOk_def inRange_def costOk_def regenerate_def list_all_iff)
qed

lemma allVitalsOk_regenTick:
  "0 \<le> delta \<Longrightarrow> allVitalsOk w \<Longrightarrow> allVitalsOk (regenTick delta i w)"
  unfolding regenTick_def
  by (rule allVitalsOk_updPlayer) (simp_all add: allVitalsOk_nth vitalsOk_regenerate)

lemma vitalsOk_passiveTimers [simp]: "vitalsOk (passiveTimers delta q) = vitalsOk q"
  by (rule vitalsOk_eqI) (simp_all add: passiveTimers_def)

lemma vitalsOk_imperialWill [simp]: "vitalsOk (imperialWill q) = vitalsOk q"
  by (rule vitalsOk_eqI) (simp_all add: imperialWill_def)

lemma vitalsOk_updateDamageFlash [simp]: "vitalsOk (updateDamageFlash delta q) = vitalsOk q"
  by (rule vitalsOk_eqI) (simp_all add: updateDamageFlash_def)

lemma vitalsOk_fortressTimer [simp]: "vitalsOk (q\<lparr>fortressTimer := a\<rparr>) = vitalsOk q"
  by (rule vitalsOk_eqI) simp_all

lemma vitalsOk_fortressHeal:
  "vitalsOk q \<Longrightarrow> vitalsOk (q\<lparr>hp := min (maxHp q) (hp q + 20)\<rparr>)"
  by (simp add: vitalsOk_def inRange_def costOk_def list_all_iff)

lemma allVitalsOk_fortressHeal:
  "allVitalsOk w \<Longrightarrow>
   allVitalsOk (updPlayer i (\<lambda>q. q\<lparr>hp := min (maxHp q) (hp q + 20), fortressTimer := - 5\<rparr>) w)"
  by (rule allVitalsOk_updPlayer) (simp_all add: allVitalsOk_nth vitalsOk_fortressHeal)

lemma allVitalsOk_fortressPassive:
  "allVitalsOk w \<Longrightarrow> allVitalsOk (fortressPassive delta i w)"
  by (simp add: fortressPassive_def allVitalsOk_updPlayer_same allVitalsOk_fortressHeal
      del: players_updPlayer)

lemma allVitalsOk_pullOpponent: "allVitalsOk w \<Longrightarrow> allVitalsOk (pullOpponent i j w)"
  by (simp add: pullOpponent_def allVitalsOk_updPlayer_same del: players_updPlayer)

lemma allVitalsOk_eventHorizon:
  "allVitalsOk w \<Longrightarrow> allVitalsOk (eventHorizonPassive i opp w)"
  by (cases opp)
     (simp_all add: eventHorizonPassive_def steps_def allVitalsOk_updPlayer_same
        allVitalsOk_pullOpponent del: players_updPlayer)

lemma allVitalsOk_updatePassive:
  "allVitalsOk w \<Longrightarrow> allVitalsOk (updatePassive delta i opp w)"
  by (simp add: updatePassive_def steps_def passiveSwitch_def allVitalsOk_fortressPassive
      allVitalsOk_eventHorizon allVitalsOk_updPlayer_same del: players_updPlayer)

lemma allVitalsOk_updateStatusRegen:
  assumes "0 \<le> delta" and "allVitalsOk w"
  shows "allVitalsOk (updateStatusRegen delta i opp w)"
  using assms
  by (simp add: updateStatusRegen_def steps_def allVitalsOk_updatePassive allVitalsOk_regenTick
      allVitalsOk_implosionTick allVitalsOk_feedbackTick allVitalsOk_venomTick
      allVitalsOk_updPlayer_same del: players_updPlayer)


lemma in_set_tl: "x \<in> set (tl xs) \<Longrightarrow> x \<in> set xs"
  by (cases xs) auto

lemma vitalsOk_recordRewind:
  assumes "vitalsOk q"
  shows "vitalsOk (recordRewind delta q)"
  using assms
  by (auto simp: vitalsOk_def recordRewind_def inRange_def costOk_def list_all_iff
      dest!: in_set_tl)

lemma allVitalsOk_updPlayer_pushSpecial:
  "allVitalsOk (updPlayer i f (pushSpecial c ow d w)) = allVitalsOk (updPlayer i f w)"
  by (simp add: allVitalsOk_def)

lemma allVitalsOk_recordRewind:
  "allVitalsOk w \<Longrightarrow> allVitalsOk (updPlayer i (recordRewind delta) w)"
  by (rule allVitalsOk_updPlayer) (simp_all add: allVitalsOk_nth vitalsOk_recordRewind)

lemma allVitalsOk_payCost:
  assumes "key \<in> set skillKeys" and "allVitalsOk w"
  shows "allVitalsOk (payCost i key w)"
proof (cases "skills (players w ! i) key")
  case None
  with assms show ?thesis by (simp add: payCost_def)
next
  case (Some sk)
  show ?thesis
  proof (cases "energy (players w ! i) < cost sk")
    case True
    with Some assms show ?thesis by (simp add: payCost_def)
  next
    case False
    have "allVitalsOk (updPlayer i
            (\<lambda>q. q\<lparr>energy := energy q - cost sk,
                   cooldowns := (cooldowns q)(key \<mapsto>
                     (if passiveName q = ''Time Flux'' then cd sk * 0.95 else cd sk))\<rparr>) w)"
    proof (rule allVitalsOk_updPlayer [OF assms(2)])
      assume "i < length (players w)"
      then have ok: "vitalsOk (players w ! i)" using assms(2) by (rule allVitalsOk_nth [rotated])
      then have "costOk (players w ! i) key"
        using assms(1) by (simp add: vitalsOk_def list_all_iff)
      then have "0 \<le> cost sk" using Some by (simp add: costOk_def)
      with ok False
      show "vitalsOk ((players w ! i)\<lparr>energy := energy (players w ! i) - cost sk,
                   cooldowns := (cooldowns (players w ! i))(key \<mapsto>
                     (if passiveName (players w ! i) = ''Time Flux'' then cd sk * 0.95 else cd sk))\<rparr>)"
        by (simp add: vitalsOk_def inRange_def costOk_def list_all_iff)
    qed
    with Some False show ?thesis by (simp add: payCost_def del: players_updPlayer)
  qed
qed

lemma vitalsOk_gain:
  "0 \<le> x \<Longrightarrow> vitalsOk q \<Longrightarrow> vitalsOk (q\<lparr>energy := min (maxEnergy q) (energy q + x)\<rparr>)"
  by (simp add: vitalsOk_def inRange_def costOk_def list_all_iff)

lemma allVitalsOk_gain:
  "0 \<le> x \<Longrightarrow> allVitalsOk w \<Longrightarrow>
   allVitalsOk (updPlayer i (\<lambda>q. q\<lparr>energy := min (maxEnergy q) (energy q + x)\<rparr>) w)"
  by (rule allVitalsOk_updPlayer) (simp_all add: allVitalsOk_nth vitalsOk_gain)

lemma allVitalsOk_resonanceGain: "allVitalsOk w \<Longrightarrow> allVitalsOk (resonanceGain i w)"
  by (simp add: resonanceGain_def allVitalsOk_gain del: players_updPlayer)

lemma vitalsOk_burn:
  "vitalsOk q \<Longrightarrow> vitalsOk (q\<lparr>energy := max 0 (energy q - 5)\<rparr>)"
  by (simp add: vitalsOk_def inRange_def costOk_def list_all_iff)

lemma allVitalsOk_manaBurn: "allVitalsOk w \<Longrightarrow> allVitalsOk (manaBurn i w)"
  by (auto simp: manaBurn_def allVitalsOk_nth vitalsOk_burn split: option.splits
      simp del: players_updPlayer intro!: allVitalsOk_updPlayer)

lemma allVitalsOk_overcharge: "allVitalsOk w \<Longrightarrow> allVitalsOk (overcharge i w)"
  by (simp add: overcharge_def steps_def allVitalsOk_gain allVitalsOk_updPlayer_same
      del: players_updPlayer)

lemma vitalsOk_emptied: "vitalsOk q \<Longrightarrow> vitalsOk (q\<lparr>energy := 0\<rparr>)"
  by (simp add: vitalsOk_def inRange_def costOk_def list_all_iff)

lemma allVitalsOk_emptied:
  "allVitalsOk w \<Longrightarrow> allVitalsOk (updPlayer j (\<lambda>q. q\<lparr>energy := 0\<rparr>) w)"
  by (rule allVitalsOk_updPlayer) (simp_all add: allVitalsOk_nth vitalsOk_emptied)

lemma allVitalsOk_systemCrash: "allVitalsOk w \<Longrightarrow> allVitalsOk (systemCrash i w)"
  by (simp add: systemCrash_def steps_def allVitalsOk_emptied allVitalsOk_takeDamage
      allVitalsOk_updPlayer_same split: option.splits del: players_updPlayer)

lemma vitalsOk_healed:
  "vitalsOk q \<Longrightarrow> vitalsOk (q\<lparr>hp := min (maxHp q) (hp q + 70)\<rparr>)"
  by (simp add: vitalsOk_def inRange_def costOk_def list_all_iff)

lemma allVitalsOk_healed:
  "allVitalsOk w \<Longrightarrow>
   allVitalsOk (updPlayer i (\<lambda>q. q\<lparr>hp := min (maxHp q) (hp q + 70)\<rparr>) w)"
  by (rule allVitalsOk_updPlayer) (simp_all add: allVitalsOk_nth vitalsOk_healed)

lemma allVitalsOk_salvation: "allVitalsOk w \<Longrightarrow> allVitalsOk (salvation i w)"
  by (simp add: salvation_def allVitalsOk_healed del: players_updPlayer)

lemma findOpponent_less: "findOpponent i w = Some j \<Longrightarrow> j < length (players w)"
  by (auto simp: findOpponent_def find_Some_iff)

lemma allVitalsOk_energyVoid:
  assumes "allVitalsOk w"
  shows "allVitalsOk (energyVoid i w)"
proof (cases "findOpponent i w")
  case None
  with assms show ?thesis by (simp add: energyVoid_def)
next
  case (Some j)
  define E where "E = energy (players w ! j)"
  have okj: "vitalsOk (players w ! j)"
    using assms findOpponent_less [OF Some] by (rule allVitalsOk_nth)
  then have E: "0 \<le> E" "E \<le> maxEnergy (players w ! j)"
    by (simp_all add: E_def vitalsOk_def inRange_def)
  have 1: "allVitalsOk (updPlayer j (\<lambda>q. q\<lparr>energy := energy q - E * 0.6\<rparr>) w)"
  proof (rule allVitalsOk_updPlayer [OF assms])
    show "vitalsOk ((players w ! j)\<lparr>energy := energy (players w ! j) - E * 0.6\<rparr>)"
      using okj E by (simp add: vitalsOk_def inRange_def costOk_def list_all_iff E_def)
  qed
  have 2: "allVitalsOk (updPlayer i (\<lambda>q. q\<lparr>energy := min (maxEnergy q) (energy q + E * 0.6)\<rparr>) w')"
    if "allVitalsOk w'" for w'
    using that E by (intro allVitalsOk_gain) simp_all
  have 3: "allVitalsOk (takeDamage j (E * 0.6 * 0.5) False w')" if "allVitalsOk w'" for w'
    using that E by (intro allVitalsOk_takeDamage) simp_all
  show ?thesis
    using Some assms 1 2 3
    by (simp add: energyVoid_def steps_def E_def del: players_updPlayer)
qed

lemma allVitalsOk_rewind:
  assumes "allVitalsOk w"
  shows "allVitalsOk (rewind i w)"
proof (cases "rewindPositions (players w ! i)")
  case Nil
  with assms show ?thesis by (simp add: rewind_def)
next
  case (Cons s rest)
  obtain pos h e where s: "s = (pos, h, e)" by (cases s) auto
  have "allVitalsOk (updPlayer i (\<lambda>q. q\<lparr>position := pos, hp := h, energy := e\<rparr>) w)"
  proof (rule allVitalsOk_updPlayer [OF assms])
    assume "i < length (players w)"
    then have "vitalsOk (players w ! i)" using assms by (rule allVitalsOk_nth [rotated])
    with Cons s
    show "vitalsOk ((players w ! i)\<lparr>position := pos, hp := h, energy := e\<rparr>)"
      by (simp add: vitalsOk_def inRange_def costOk_def list_all_iff)
  qed
  with Cons s show ?thesis
    by (simp add: rewind_def steps_def allVitalsOk_updPlayer_pushSpecial del: players_updPlayer)
qed

lemma allVitalsOk_applyOp:
  "admissible x \<Longrightarrow> allVitalsOk w \<Longrightarrow> allVitalsOk (applyOp x w)"
  by (cases x)
     (simp_all add: allVitalsOk_takeDamage allVitalsOk_updateStatusRegen
        allVitalsOk_recordRewind allVitalsOk_payCost allVitalsOk_resonanceGain
        allVitalsOk_manaBurn allVitalsOk_overcharge allVitalsOk_systemCrash
        allVitalsOk_salvation allVitalsOk_energyVoid allVitalsOk_rewind
        del: players_updPlayer)

lemma allVitalsOk_fold:
  "list_all admissible ops \<Longrightarrow> allVitalsOk w \<Longrightarrow> allVitalsOk (fold applyOp ops w)"
  by (induction ops arbitrary: w) (simp_all add: allVitalsOk_applyOp)

text \<open>
  C6.  From a state in which health and energy of every fighter are within their bounds
  (as are the stored snapshots, and no skill has a negative cost), any sequence of hits,
  DoT ticks, update ticks, snapshots, skill costs, heals, energy gains and energy drains,
  with non-negative amounts and elapsed times, leaves the health of every fighter in
  \<open>[0, maxHp]\<close> and its energy in \<open>[0, maxEnergy]\<close>.
\<close>

theorem health_energy_stay_in_bounds:
  assumes "allVitalsOk w" and "list_all admissible ops"
  shows "list_all (\<lambda>q. 0 \<le> hp q \<and> hp q \<le> maxHp q \<and> 0 \<le> energy q \<and> energy q \<le> maxEnergy q)
           (players (applyOps ops w))"
proof -
  have "allVitalsOk (applyOps ops w)"
    unfolding applyOps_def using assms(2,1) by (rule allVitalsOk_fold)
  then show ?thesis by (simp add: allVitalsOk_def vitalsOk_def inRange_def list_all_iff)
qed

theorem health_energy_stay_in_bounds_witness:
  "allVitalsOk duel \<and> list_all admissible matchOps
   \<and> map (\<lambda>q. (hp q, energy q, isDead q)) (players (applyOps matchOps duel))
       = [(0, 5 / 32, True), (100, 60, False)]
   \<and> list_all (\<lambda>q. 0 \<le> hp q \<and> hp q \<le> maxHp q \<and> 0 \<le> energy q \<and> energy q \<le> maxEnergy q)
         (players (applyOps matchOps duel))"
proof -
  have a: "allVitalsOk duel"
    by (simp add: duel_def vitals_evals skillKeys_def world_evals data_evals)
  have b: "list_all admissible matchOps"
    by (simp add: matchOps_def skillKeys_def)
  have c: "map (\<lambda>q. (hp q, energy q, isDead q)) (players (applyOps matchOps duel))
           = [(0, 5 / 32, True), (100, 60, False)]"
    by (simp add: duel_def op_evals tick_evals full_tick_evals world_evals data_evals
        damage_evals)
  from health_energy_stay_in_bounds [OF a b] a b c show ?thesis by simp
qed


section \<open>Destroyed objects and the live list\<close>

lemma baseDestroy_idem: "baseDestroy (baseDestroy ob) = baseDestroy ob"
  by (simp add: baseDestroy_def)

lemma destroyed_baseUpdate: "isDestroyed ob \<Longrightarrow> baseUpdate delta ob = ob"
  by (simp add: baseUpdate_def)

lemma destroyed_staticFieldUpdate: "isDestroyed ob \<Longrightarrow> staticFieldUpdate near delta ob w = w"
  by (simp add: staticFieldUpdate_def)

lemma destroyed_is_skipped:
  assumes "i < length (specialObjects w)" and "isDestroyed (specialObjects w ! i)"
  shows "specialLoop near delta (Suc n) i w = specialLoop near delta n (i + 1) w"
  using assms by simp

lemma sweep_leaves_no_destroyed:
  "list_all (\<lambda>x. \<not> isDestroyed x) (specialObjects (sweep w))"
  by (simp add: sweep_def list_all_iff)

text \<open>
  C5.  One pass of the special-object loop over a duel in which a Static Field tick kills
  a fighter.  \<open>Player.die\<close>, called from inside the field's update, destroys the fighter's
  aura and splices it out of the live list while the loop is running: after the loop,
  and before any filter pass, the aura is gone from the list although no entry is marked
  destroyed.  The splice shifts the later entries down by one, so the loop steps over the
  damage text that the lethal hit has just pushed: its duration is still 1, while the
  particle system behind it has been updated.  When the hit is not lethal the same
  damage text is updated in that pass.
\<close>

theorem death_splices_the_aura_during_the_loop:
  "map className (specialObjects fieldDuel) =
     [''PlayerAura'', ''StatusEffectVisual'', ''StatusEffectVisual'', ''StatusEffectVisual'',
      ''StatusEffectVisual'', ''PlayerAura'', ''StatusEffectVisual'', ''StatusEffectVisual'',
      ''StatusEffectVisual'', ''StatusEffectVisual'', ''StaticField'']
   \<and> map_option (\<lambda>w. map (\<lambda>x. (className x, isDestroyed x)) (specialObjects w)) (fieldTick fieldDuel) =
     Some [(''PlayerAura'', False), (''StatusEffectVisual'', False), (''StatusEffectVisual'', False),
           (''StatusEffectVisual'', False), (''StatusEffectVisual'', False),
           (''StatusEffectVisual'', False), (''StatusEffectVisual'', False),
           (''StatusEffectVisual'', False), (''StatusEffectVisual'', False),
           (''StaticField'', False), (''FloatingDamageText'', False),
           (''ParticleSystem'', False), (''ParticleSystem'', False)]
   \<and> map_option (\<lambda>w. (isDead (players w ! 1), aura (players w ! 1))) (fieldTick fieldDuel)
       = Some (True, None)
   \<and> map_option (durationOf 11) (fieldTick fieldDuel) = Some (Some (Fin 1))
   \<and> map_option (durationOf 13) (fieldTick fieldDuel) = Some (Some (Fin (3 / 2 - 1 / 32)))
   \<and> map_option (durationOf 11) (fieldTick healthyFieldDuel) = Some (Some (Fin (1 - 1 / 32)))"
proof -
  have a: "map className (specialObjects fieldDuel) =
     [''PlayerAura'', ''StatusEffectVisual'', ''StatusEffectVisual'', ''StatusEffectVisual'',
      ''StatusEffectVisual'', ''PlayerAura'', ''StatusEffectVisual'', ''StatusEffectVisual'',
      ''StatusEffectVisual'', ''StatusEffectVisual'', ''StaticField'']"
    by (simp add: loop_evals duel_def world_evals data_evals)
  have b: "map_option (\<lambda>w. (map (\<lambda>x. (className x, isDestroyed x)) (specialObjects w),
               isDead (players w ! 1), aura (players w ! 1), durationOf 11 w, durationOf 13 w))
             (fieldTick fieldDuel) =
     Some ([(''PlayerAura'', False), (''StatusEffectVisual'', False), (''StatusEffectVisual'', False),
           (''StatusEffectVisual'', False), (''StatusEffectVisual'', False),
           (''StatusEffectVisual'', False), (''StatusEffectVisual'', False),
           (''StatusEffectVisual'', False), (''StatusEffectVisual'', False),
           (''StaticField'', False), (''FloatingDamageText'', False),
           (''ParticleSystem'', False), (''ParticleSystem'', False)],
           True, None, Some (Fin 1), Some (Fin (3 / 2 - 1 / 32)))"
    by (simp add: loop_evals duel_def world_evals data_evals damage_evals eval_nat_numeral)
  have c: "map_option (durationOf 11) (fieldTick healthyFieldDuel) = Some (Some (Fin (1 - 1 / 32)))"
    by (simp add: loop_evals duel_def world_evals data_evals damage_evals eval_nat_numeral)
  from b obtain w where w: "fieldTick fieldDuel = Some w" by (cases "fieldTick fieldDuel") auto
  from a b c show ?thesis by (simp add: w)
qed

end
